theory Spec2Isabelle
  imports Main
begin

section \<open>The timeline model observed by pitivi/undo/timeline.py\<close>

text \<open>
  The undo module works on objects of the GES timeline model (layers, clips, track
  elements, control sources) which it does not own. Objects are references in the
  Python code; here every object is a natural number indexing a store, and every
  method of the model that the module calls is a function on the store.
\<close>

datatype gvalue = VNone | VBool bool | VInt int | VStr string

datatype error = KeyError | TypeError | AttributeError

text \<open>A property specification: \<open>pspec.owner_type.name\<close>, \<open>pspec.name\<close> and
  the bit \<open>pspec.flags & GObject.PARAM_WRITABLE\<close>.\<close>

record pspec =
  owner_type :: string
  pname :: string
  writable :: bool

text \<open>\<open>child_property_name(pspec)\<close>: \<open>"%s::%s" % (pspec.owner_type.name, pspec.name)\<close>.\<close>

definition child_property_name :: "pspec \<Rightarrow> string" where
  "child_property_name p = owner_type p @ ''::'' @ pname p"

text \<open>
  A track element: the asset it was extracted from, the track it is attached to
  (\<open>get_track()\<close>, \<open>None\<close> while unattached), its \<open>active\<close> flag, its child
  properties in the order of \<open>list_children_properties()\<close> with their values, and
  its control bindings (\<open>get_control_binding(name)\<close>), each naming a control source.
\<close>

record track_element =
  te_asset :: nat
  te_track :: "nat option"
  te_active :: bool
  te_props :: "(pspec \<times> gvalue) list"
  te_bindings :: "(string \<times> nat) list"

record clip =
  clip_name :: "string option"
  clip_props :: "string \<Rightarrow> gvalue"
  clip_children :: "nat list"

record layer =
  layer_priority :: int
  layer_clips :: "nat set"

text \<open>
  The store. \<open>sources\<close> maps a control source to its keyframes (timestamp to value);
  \<open>assets\<close> gives the track element an asset extracts; \<open>next_element\<close> is the
  reference the next extracted element receives; \<open>commits\<close> counts the calls of
  \<open>pipeline.commit_timeline()\<close>.
\<close>

record ges =
  elements :: "nat \<Rightarrow> track_element"
  clips :: "nat \<Rightarrow> clip"
  layers :: "nat \<Rightarrow> layer"
  timeline_layers :: "nat set"
  sources :: "nat \<Rightarrow> (int \<rightharpoonup> gvalue)"
  assets :: "nat \<Rightarrow> track_element"
  next_element :: nat
  commits :: nat

subsection \<open>Methods of the model\<close>

text \<open>\<open>get_child_property(name)[1]\<close>: the value of the first child property of
  that name, \<open>None\<close> when there is none.\<close>

fun lookup_child :: "(pspec \<times> gvalue) list \<Rightarrow> string \<Rightarrow> gvalue option" where
  "lookup_child [] n = None"
| "lookup_child ((p, v) # ps) n =
     (if child_property_name p = n then Some v else lookup_child ps n)"

definition get_child_property :: "track_element \<Rightarrow> string \<Rightarrow> gvalue" where
  "get_child_property te n = (case lookup_child (te_props te) n of None \<Rightarrow> VNone | Some v \<Rightarrow> v)"

text \<open>\<open>set_child_property(name, value)\<close>: writes the first child property of that
  name; no such property, no change.\<close>

fun write_child :: "string \<Rightarrow> gvalue \<Rightarrow> (pspec \<times> gvalue) list \<Rightarrow> (pspec \<times> gvalue) list" where
  "write_child n v [] = []"
| "write_child n v ((p, w) # ps) =
     (if child_property_name p = n then (p, v) # ps else (p, w) # write_child n v ps)"

definition set_child_property :: "string \<Rightarrow> gvalue \<Rightarrow> track_element \<Rightarrow> track_element" where
  "set_child_property n v te = te\<lparr>te_props := write_child n v (te_props te)\<rparr>"

definition list_children_properties :: "track_element \<Rightarrow> pspec list" where
  "list_children_properties te = map fst (te_props te)"

text \<open>\<open>get_control_binding(name)\<close>: the control source bound to the property, if any.\<close>

definition get_control_binding :: "track_element \<Rightarrow> string \<Rightarrow> nat option" where
  "get_control_binding te n = map_of (te_bindings te) n"

definition commit_timeline :: "ges \<Rightarrow> ges" where
  "commit_timeline g = g\<lparr>commits := Suc (commits g)\<rparr>"

definition update_element :: "nat \<Rightarrow> (track_element \<Rightarrow> track_element) \<Rightarrow> ges \<Rightarrow> ges" where
  "update_element e f g = g\<lparr>elements := (elements g)(e := f (elements g e))\<rparr>"

definition update_clip :: "nat \<Rightarrow> (clip \<Rightarrow> clip) \<Rightarrow> ges \<Rightarrow> ges" where
  "update_clip c f g = g\<lparr>clips := (clips g)(c := f (clips g c))\<rparr>"

definition update_layer :: "nat \<Rightarrow> (layer \<Rightarrow> layer) \<Rightarrow> ges \<Rightarrow> ges" where
  "update_layer l f g = g\<lparr>layers := (layers g)(l := f (layers g l))\<rparr>"

text \<open>\<open>clip.add_asset(asset)\<close>: extracts a new track element from the asset, adds
  it to the clip and returns it.\<close>

definition add_asset :: "nat \<Rightarrow> nat \<Rightarrow> ges \<Rightarrow> nat \<times> ges" where
  "add_asset c a g =
     (let e = next_element g in
      (e, update_clip c (\<lambda>cl. cl\<lparr>clip_children := clip_children cl @ [e]\<rparr>)
            (g\<lparr>elements := (elements g)(e := assets g a), next_element := Suc e\<rparr>)))"

text \<open>\<open>clip.remove(track_element)\<close>.\<close>

definition clip_remove :: "nat \<Rightarrow> nat \<Rightarrow> ges \<Rightarrow> ges" where
  "clip_remove c e g = update_clip c (\<lambda>cl. cl\<lparr>clip_children := removeAll e (clip_children cl)\<rparr>) g"

definition set_name :: "nat \<Rightarrow> string option \<Rightarrow> ges \<Rightarrow> ges" where
  "set_name c n g = update_clip c (\<lambda>cl. cl\<lparr>clip_name := n\<rparr>) g"

definition set_property :: "nat \<Rightarrow> string \<Rightarrow> gvalue \<Rightarrow> ges \<Rightarrow> ges" where
  "set_property c n v g = update_clip c (\<lambda>cl. cl\<lparr>clip_props := (clip_props cl)(n := v)\<rparr>) g"

definition add_clip :: "nat \<Rightarrow> nat \<Rightarrow> ges \<Rightarrow> ges" where
  "add_clip l c g = update_layer l (\<lambda>la. la\<lparr>layer_clips := insert c (layer_clips la)\<rparr>) g"

definition remove_clip :: "nat \<Rightarrow> nat \<Rightarrow> ges \<Rightarrow> ges" where
  "remove_clip l c g = update_layer l (\<lambda>la. la\<lparr>layer_clips := layer_clips la - {c}\<rparr>) g"

definition add_layer :: "nat \<Rightarrow> ges \<Rightarrow> ges" where
  "add_layer l g = g\<lparr>timeline_layers := insert l (timeline_layers g)\<rparr>"

definition remove_layer :: "nat \<Rightarrow> ges \<Rightarrow> ges" where
  "remove_layer l g = g\<lparr>timeline_layers := timeline_layers g - {l}\<rparr>"

definition set_priority :: "nat \<Rightarrow> int \<Rightarrow> ges \<Rightarrow> ges" where
  "set_priority l p g = update_layer l (\<lambda>la. la\<lparr>layer_priority := p\<rparr>) g"

text \<open>\<open>control_source.set(timestamp, value)\<close> and \<open>control_source.unset(timestamp)\<close>.\<close>

definition cs_set :: "nat \<Rightarrow> int \<Rightarrow> gvalue \<Rightarrow> ges \<Rightarrow> ges" where
  "cs_set s t v g = g\<lparr>sources := (sources g)(s := (sources g s)(t \<mapsto> v))\<rparr>"

definition cs_unset :: "nat \<Rightarrow> int \<Rightarrow> ges \<Rightarrow> ges" where
  "cs_unset s t g = g\<lparr>sources := (sources g)(s := (sources g s)(t := None))\<rparr>"


section \<open>The undoable actions\<close>

text \<open>
  Modelled from the spec: the base class \<open>UndoableAction\<close> of pitivi/undo/undo.py,
  whose \<open>_done()\<close> and \<open>_undone()\<close> mark the action done and undone. An action
  is pending from its construction until the first mark.

  A method that cannot raise returns the action and the store; one that can
  returns \<open>error + action \<times> store\<close>, an exception ending the method with
  \<open>Inl\<close>. What an exception leaves of the store is not kept.
\<close>

datatype status = Pending | Done | Undone

record undoable_action =
  status :: status

definition UndoableAction_done :: "'a undoable_action_scheme \<Rightarrow> 'a undoable_action_scheme" where
  "UndoableAction_done a = a\<lparr>status := Done\<rparr>"

definition UndoableAction_undone :: "'a undoable_action_scheme \<Rightarrow> 'a undoable_action_scheme" where
  "UndoableAction_undone a = a\<lparr>status := Undone\<rparr>"

subsection \<open>TrackElementPropertyChanged\<close>

record track_element_property_changed = undoable_action +
  tepc_track_element :: nat
  tepc_property_name :: string
  tepc_old_value :: gvalue
  tepc_new_value :: gvalue

definition TrackElementPropertyChanged_init ::
  "nat \<Rightarrow> string \<Rightarrow> gvalue \<Rightarrow> gvalue \<Rightarrow> track_element_property_changed" where
  "TrackElementPropertyChanged_init te n old new =
     \<lparr>status = Pending, tepc_track_element = te, tepc_property_name = n,
      tepc_old_value = old, tepc_new_value = new\<rparr>"

definition TrackElementPropertyChanged_do ::
  "track_element_property_changed \<Rightarrow> ges \<Rightarrow> track_element_property_changed \<times> ges" where
  "TrackElementPropertyChanged_do a g =
     (UndoableAction_done a,
      update_element (tepc_track_element a)
        (set_child_property (tepc_property_name a) (tepc_new_value a)) g)"

definition TrackElementPropertyChanged_undo ::
  "track_element_property_changed \<Rightarrow> ges \<Rightarrow> track_element_property_changed \<times> ges" where
  "TrackElementPropertyChanged_undo a g =
     (UndoableAction_undone a,
      update_element (tepc_track_element a)
        (set_child_property (tepc_property_name a) (tepc_old_value a)) g)"

subsection \<open>TrackElementAdded and TrackElementRemoved\<close>

text \<open>
  \<open>tea_track_element\<close> is \<open>None\<close> after the element was released. The properties
  watcher is the \<open>_tracked_track_elements\<close> dictionary of the
  TrackElementChildPropertyTracker the action was built with, as it is when the
  method runs; \<open>getPropChangedFromTrackElement\<close> raises KeyError on an element
  that is not a key. The ignore list \<open>PROPS_TO_IGNORE\<close> of pitivi/effects.py is a
  parameter.
\<close>

type_synonym properties_watcher = "nat \<rightharpoonup> (string \<rightharpoonup> gvalue)"

record track_element_added = undoable_action +
  tea_clip :: nat
  tea_track_element :: "nat option"
  tea_asset :: nat
  tea_track_element_props :: "(string \<times> gvalue) list"
  tea_props_changed :: "string \<rightharpoonup> gvalue"

definition TrackElementAdded_init :: "nat \<Rightarrow> nat \<Rightarrow> ges \<Rightarrow> track_element_added" where
  "TrackElementAdded_init c te g =
     \<lparr>status = Pending, tea_clip = c, tea_track_element = Some te,
      tea_asset = te_asset (elements g te), tea_track_element_props = [],
      tea_props_changed = Map.empty\<rparr>"

text \<open>The loop \<open>for prop_name, prop_value in self.track_element_props\<close>.\<close>

definition restore_props :: "nat \<Rightarrow> (string \<times> gvalue) list \<Rightarrow> ges \<Rightarrow> ges" where
  "restore_props e ps g = fold (\<lambda>(n, v). update_element e (set_child_property n v)) ps g"

text \<open>The list comprehension over \<open>list_children_properties()\<close>.\<close>

definition capture_props :: "string list \<Rightarrow> track_element \<Rightarrow> (string \<times> gvalue) list" where
  "capture_props ign te =
     map (\<lambda>p. (child_property_name p, get_child_property te (child_property_name p)))
       (filter (\<lambda>p. writable p \<and> pname p \<notin> set ign) (list_children_properties te))"

definition TrackElementAdded_do :: "track_element_added \<Rightarrow> ges \<Rightarrow> track_element_added \<times> ges" where
  "TrackElementAdded_do a g =
     (let (e, g1) = add_asset (tea_clip a) (tea_asset a) g;
          g2 = restore_props e (tea_track_element_props a) g1
      in (UndoableAction_done (a\<lparr>tea_track_element := Some e, tea_props_changed := Map.empty\<rparr>), g2))"

definition TrackElementAdded_undo ::
  "string list \<Rightarrow> properties_watcher \<Rightarrow> track_element_added \<Rightarrow> ges
     \<Rightarrow> error + track_element_added \<times> ges" where
  "TrackElementAdded_undo ign pw a g =
     (case tea_track_element a of
        None \<Rightarrow> Inl AttributeError
      | Some e \<Rightarrow>
          (let props = capture_props ign (elements g e);
               g1 = clip_remove (tea_clip a) e g
           in case pw e of
                None \<Rightarrow> Inl KeyError
              | Some changed \<Rightarrow>
                  Inr (UndoableAction_undone
                         (a\<lparr>tea_track_element_props := props, tea_props_changed := changed,
                            tea_track_element := None\<rparr>), g1)))"

record track_element_removed = undoable_action +
  ter_clip :: nat
  ter_track_element :: "nat option"
  ter_asset :: nat
  ter_track_element_props :: "(string \<times> gvalue) list"
  ter_props_changed :: "string \<rightharpoonup> gvalue"

definition TrackElementRemoved_init :: "nat \<Rightarrow> nat \<Rightarrow> ges \<Rightarrow> track_element_removed" where
  "TrackElementRemoved_init c te g =
     \<lparr>status = Pending, ter_clip = c, ter_track_element = Some te,
      ter_asset = te_asset (elements g te), ter_track_element_props = [],
      ter_props_changed = Map.empty\<rparr>"

definition TrackElementRemoved_do ::
  "string list \<Rightarrow> properties_watcher \<Rightarrow> track_element_removed \<Rightarrow> ges
     \<Rightarrow> error + track_element_removed \<times> ges" where
  "TrackElementRemoved_do ign pw a g =
     (case ter_track_element a of
        None \<Rightarrow> Inl AttributeError
      | Some e \<Rightarrow>
          (let props = capture_props ign (elements g e);
               g1 = clip_remove (ter_clip a) e g
           in case pw e of
                None \<Rightarrow> Inl KeyError
              | Some changed \<Rightarrow>
                  Inr (UndoableAction_done
                         (a\<lparr>ter_track_element_props := props, ter_props_changed := changed,
                            ter_track_element := None\<rparr>), g1)))"

definition TrackElementRemoved_undo :: "track_element_removed \<Rightarrow> ges \<Rightarrow> track_element_removed \<times> ges" where
  "TrackElementRemoved_undo a g =
     (let (e, g1) = add_asset (ter_clip a) (ter_asset a) g;
          g2 = restore_props e (ter_track_element_props a) g1
      in (UndoableAction_undone (a\<lparr>ter_track_element := Some e, ter_props_changed := Map.empty\<rparr>), g2))"


subsection \<open>ClipPropertyChanged\<close>

text \<open>\<open>property_name.replace("-", "_")\<close>.\<close>

definition replace_dash :: "string \<Rightarrow> string" where
  "replace_dash n = map (\<lambda>c. if c = CHR ''-'' then CHR ''_'' else c) n"

record clip_property_changed = undoable_action +
  cpc_clip :: nat
  cpc_property_name :: string
  cpc_old_value :: gvalue
  cpc_new_value :: gvalue

definition ClipPropertyChanged_init :: "nat \<Rightarrow> string \<Rightarrow> gvalue \<Rightarrow> gvalue \<Rightarrow> clip_property_changed" where
  "ClipPropertyChanged_init c n old new =
     \<lparr>status = Pending, cpc_clip = c, cpc_property_name = n,
      cpc_old_value = old, cpc_new_value = new\<rparr>"

definition ClipPropertyChanged_do :: "clip_property_changed \<Rightarrow> ges \<Rightarrow> clip_property_changed \<times> ges" where
  "ClipPropertyChanged_do a g =
     (UndoableAction_done a,
      set_property (cpc_clip a) (replace_dash (cpc_property_name a)) (cpc_new_value a) g)"

definition ClipPropertyChanged_undo :: "clip_property_changed \<Rightarrow> ges \<Rightarrow> clip_property_changed \<times> ges" where
  "ClipPropertyChanged_undo a g =
     (UndoableAction_undone a,
      set_property (cpc_clip a) (replace_dash (cpc_property_name a)) (cpc_old_value a) g)"

subsection \<open>ClipAdded and ClipRemoved\<close>

record clip_action = undoable_action +
  ca_layer :: nat
  ca_clip :: nat

definition ClipAdded_init :: "nat \<Rightarrow> nat \<Rightarrow> clip_action" where
  "ClipAdded_init l c = \<lparr>status = Pending, ca_layer = l, ca_clip = c\<rparr>"

text \<open>
  \<open>self.layer.get_timeline()\<close> is \<open>None\<close> for a layer that is not in the
  timeline, and \<open>.get_asset()\<close> on it raises AttributeError: after the clip was
  added or removed, before the commit and the mark.
\<close>

definition get_timeline :: "nat \<Rightarrow> ges \<Rightarrow> unit option" where
  "get_timeline l g = (if l \<in> timeline_layers g then Some () else None)"

definition ClipAdded_do :: "clip_action \<Rightarrow> ges \<Rightarrow> error + clip_action \<times> ges" where
  "ClipAdded_do a g =
     (let g1 = add_clip (ca_layer a) (ca_clip a) (set_name (ca_clip a) None g) in
      case get_timeline (ca_layer a) g1 of
        None \<Rightarrow> Inl AttributeError
      | Some timeline \<Rightarrow> Inr (UndoableAction_done a, commit_timeline g1))"

definition ClipAdded_undo :: "clip_action \<Rightarrow> ges \<Rightarrow> error + clip_action \<times> ges" where
  "ClipAdded_undo a g =
     (let g1 = remove_clip (ca_layer a) (ca_clip a) g in
      case get_timeline (ca_layer a) g1 of
        None \<Rightarrow> Inl AttributeError
      | Some timeline \<Rightarrow> Inr (UndoableAction_undone a, commit_timeline g1))"

definition ClipRemoved_init :: "nat \<Rightarrow> nat \<Rightarrow> clip_action" where
  "ClipRemoved_init l c = \<lparr>status = Pending, ca_layer = l, ca_clip = c\<rparr>"

definition ClipRemoved_do :: "clip_action \<Rightarrow> ges \<Rightarrow> error + clip_action \<times> ges" where
  "ClipRemoved_do a g =
     (let g1 = remove_clip (ca_layer a) (ca_clip a) g in
      case get_timeline (ca_layer a) g1 of
        None \<Rightarrow> Inl AttributeError
      | Some timeline \<Rightarrow> Inr (UndoableAction_done a, commit_timeline g1))"

definition ClipRemoved_undo :: "clip_action \<Rightarrow> ges \<Rightarrow> error + clip_action \<times> ges" where
  "ClipRemoved_undo a g =
     (let g1 = add_clip (ca_layer a) (ca_clip a) (set_name (ca_clip a) None g) in
      case get_timeline (ca_layer a) g1 of
        None \<Rightarrow> Inl AttributeError
      | Some timeline \<Rightarrow> Inr (UndoableAction_undone a, commit_timeline g1))"

subsection \<open>LayerAdded, LayerRemoved and LayerMoved\<close>

text \<open>The timeline is the one timeline of the store; these methods call neither
  \<open>_done()\<close> nor \<open>_undone()\<close>.\<close>

record layer_action = undoable_action +
  la_ges_layer :: nat

definition LayerAdded_init :: "nat \<Rightarrow> layer_action" where
  "LayerAdded_init l = \<lparr>status = Pending, la_ges_layer = l\<rparr>"

definition LayerAdded_do :: "layer_action \<Rightarrow> ges \<Rightarrow> layer_action \<times> ges" where
  "LayerAdded_do a g = (a, add_layer (la_ges_layer a) g)"

definition LayerAdded_undo :: "layer_action \<Rightarrow> ges \<Rightarrow> layer_action \<times> ges" where
  "LayerAdded_undo a g = (a, commit_timeline (remove_layer (la_ges_layer a) g))"

definition LayerRemoved_init :: "nat \<Rightarrow> layer_action" where
  "LayerRemoved_init l = \<lparr>status = Pending, la_ges_layer = l\<rparr>"

definition LayerRemoved_do :: "layer_action \<Rightarrow> ges \<Rightarrow> layer_action \<times> ges" where
  "LayerRemoved_do a g = (a, commit_timeline (remove_layer (la_ges_layer a) g))"

definition LayerRemoved_undo :: "layer_action \<Rightarrow> ges \<Rightarrow> layer_action \<times> ges" where
  "LayerRemoved_undo a g = (a, add_layer (la_ges_layer a) g)"

record layer_moved = undoable_action +
  lm_ges_layer :: nat
  lm_old_priority :: int
  lm_priority :: int

definition LayerMoved_init :: "nat \<Rightarrow> int \<Rightarrow> int \<Rightarrow> layer_moved" where
  "LayerMoved_init l old new =
     \<lparr>status = Pending, lm_ges_layer = l, lm_old_priority = old, lm_priority = new\<rparr>"

definition LayerMoved_do :: "layer_moved \<Rightarrow> ges \<Rightarrow> layer_moved \<times> ges" where
  "LayerMoved_do a g = (a, set_priority (lm_ges_layer a) (lm_priority a) g)"

definition LayerMoved_undo :: "layer_moved \<Rightarrow> ges \<Rightarrow> layer_moved \<times> ges" where
  "LayerMoved_undo a g = (a, set_priority (lm_ges_layer a) (lm_old_priority a) g)"

subsection \<open>ControlSourceValueAdded, ControlSourceValueRemoved, ControlSourceKeyframeChanged\<close>

text \<open>A keyframe is the pair \<open>(keyframe.timestamp, keyframe.value)\<close>.\<close>

type_synonym keyframe = "int \<times> gvalue"

record control_source_value = undoable_action +
  csv_track_element :: nat
  csv_control_source :: nat
  csv_keyframe :: keyframe
  csv_property_name :: string

definition ControlSourceValueAdded_init :: "nat \<Rightarrow> nat \<Rightarrow> keyframe \<Rightarrow> string \<Rightarrow> control_source_value" where
  "ControlSourceValueAdded_init te s k n =
     \<lparr>status = Pending, csv_track_element = te, csv_control_source = s,
      csv_keyframe = k, csv_property_name = n\<rparr>"

definition ControlSourceValueAdded_do :: "control_source_value \<Rightarrow> ges \<Rightarrow> control_source_value \<times> ges" where
  "ControlSourceValueAdded_do a g =
     (UndoableAction_done a,
      cs_set (csv_control_source a) (fst (csv_keyframe a)) (snd (csv_keyframe a)) g)"

definition ControlSourceValueAdded_undo :: "control_source_value \<Rightarrow> ges \<Rightarrow> control_source_value \<times> ges" where
  "ControlSourceValueAdded_undo a g =
     (UndoableAction_undone a, cs_unset (csv_control_source a) (fst (csv_keyframe a)) g)"

definition ControlSourceValueRemoved_init :: "nat \<Rightarrow> nat \<Rightarrow> keyframe \<Rightarrow> string \<Rightarrow> control_source_value" where
  "ControlSourceValueRemoved_init te s k n =
     \<lparr>status = Pending, csv_track_element = te, csv_control_source = s,
      csv_keyframe = k, csv_property_name = n\<rparr>"

text \<open>As in the source, \<open>do\<close> ends with \<open>self._undone()\<close> and \<open>undo\<close> with
  \<open>self._done()\<close>.\<close>

definition ControlSourceValueRemoved_do :: "control_source_value \<Rightarrow> ges \<Rightarrow> control_source_value \<times> ges" where
  "ControlSourceValueRemoved_do a g =
     (UndoableAction_undone a, cs_unset (csv_control_source a) (fst (csv_keyframe a)) g)"

definition ControlSourceValueRemoved_undo :: "control_source_value \<Rightarrow> ges \<Rightarrow> control_source_value \<times> ges" where
  "ControlSourceValueRemoved_undo a g =
     (UndoableAction_done a,
      cs_set (csv_control_source a) (fst (csv_keyframe a)) (snd (csv_keyframe a)) g)"

record control_source_keyframe_changed = undoable_action +
  ckc_control_source :: nat
  ckc_old_snapshot :: keyframe
  ckc_new_snapshot :: keyframe

definition ControlSourceKeyframeChanged_init ::
  "nat \<Rightarrow> keyframe \<Rightarrow> keyframe \<Rightarrow> control_source_keyframe_changed" where
  "ControlSourceKeyframeChanged_init s old new =
     \<lparr>status = Pending, ckc_control_source = s, ckc_old_snapshot = old, ckc_new_snapshot = new\<rparr>"

definition applySnapshot :: "control_source_keyframe_changed \<Rightarrow> keyframe \<Rightarrow> ges \<Rightarrow> ges" where
  "applySnapshot a snapshot g =
     (case snapshot of (time, val) \<Rightarrow> cs_set (ckc_control_source a) time val g)"

definition ControlSourceKeyframeChanged_do ::
  "control_source_keyframe_changed \<Rightarrow> ges \<Rightarrow> control_source_keyframe_changed \<times> ges" where
  "ControlSourceKeyframeChanged_do a g = (UndoableAction_done a, applySnapshot a (ckc_new_snapshot a) g)"

definition ControlSourceKeyframeChanged_undo ::
  "control_source_keyframe_changed \<Rightarrow> ges \<Rightarrow> control_source_keyframe_changed \<times> ges" where
  "ControlSourceKeyframeChanged_undo a g = (UndoableAction_undone a, applySnapshot a (ckc_old_snapshot a) g)"

subsection \<open>ActivePropertyChanged\<close>

text \<open>
  \<open>apc_effect_action\<close> is the TrackElementAdded action the Python object refers
  to, as it is when the method runs; its \<open>track_element\<close> is \<open>None\<close> after that
  action was undone, and the attribute write then raises AttributeError.
\<close>

record active_property_changed = undoable_action +
  apc_effect_action :: track_element_added
  apc_active :: bool

definition ActivePropertyChanged_init :: "track_element_added \<Rightarrow> bool \<Rightarrow> active_property_changed" where
  "ActivePropertyChanged_init effect_action active =
     \<lparr>status = Pending, apc_effect_action = effect_action, apc_active = (\<not> active)\<rparr>"

definition set_active :: "bool \<Rightarrow> track_element \<Rightarrow> track_element" where
  "set_active b te = te\<lparr>te_active := b\<rparr>"

definition ActivePropertyChanged_do ::
  "active_property_changed \<Rightarrow> ges \<Rightarrow> error + active_property_changed \<times> ges" where
  "ActivePropertyChanged_do a g =
     (case tea_track_element (apc_effect_action a) of
        None \<Rightarrow> Inl AttributeError
      | Some e \<Rightarrow>
          Inr (UndoableAction_done (a\<lparr>apc_active := (\<not> apc_active a)\<rparr>),
               update_element e (set_active (apc_active a)) g))"

definition ActivePropertyChanged_undo ::
  "active_property_changed \<Rightarrow> ges \<Rightarrow> error + active_property_changed \<times> ges" where
  "ActivePropertyChanged_undo a g =
     (case tea_track_element (apc_effect_action a) of
        None \<Rightarrow> Inl AttributeError
      | Some e \<Rightarrow>
          Inr (UndoableAction_undone (a\<lparr>apc_active := (\<not> apc_active a)\<rparr>),
               update_element e (set_active (apc_active a)) g))"


subsection \<open>Dispatch on the class of an action\<close>

datatype action =
    ATrackElementPropertyChanged track_element_property_changed
  | ATrackElementAdded track_element_added
  | ATrackElementRemoved track_element_removed
  | AClipPropertyChanged clip_property_changed
  | AClipAdded clip_action
  | AClipRemoved clip_action
  | ALayerAdded layer_action
  | ALayerRemoved layer_action
  | ALayerMoved layer_moved
  | AControlSourceValueAdded control_source_value
  | AControlSourceValueRemoved control_source_value
  | AControlSourceKeyframeChanged control_source_keyframe_changed
  | AActivePropertyChanged active_property_changed

definition lift_action :: "('a \<Rightarrow> action) \<Rightarrow> 'a \<times> ges \<Rightarrow> error + action \<times> ges" where
  "lift_action C r = Inr (C (fst r), snd r)"

definition lift_result :: "('a \<Rightarrow> action) \<Rightarrow> error + 'a \<times> ges \<Rightarrow> error + action \<times> ges" where
  "lift_result C r = (case r of Inl e \<Rightarrow> Inl e | Inr (a, g) \<Rightarrow> Inr (C a, g))"

text \<open>\<open>action.do()\<close> and \<open>action.undo()\<close>.\<close>

fun action_do :: "string list \<Rightarrow> properties_watcher \<Rightarrow> action \<Rightarrow> ges \<Rightarrow> error + action \<times> ges" where
  "action_do ign pw (ATrackElementPropertyChanged a) g =
     lift_action ATrackElementPropertyChanged (TrackElementPropertyChanged_do a g)"
| "action_do ign pw (ATrackElementAdded a) g = lift_action ATrackElementAdded (TrackElementAdded_do a g)"
| "action_do ign pw (ATrackElementRemoved a) g =
     lift_result ATrackElementRemoved (TrackElementRemoved_do ign pw a g)"
| "action_do ign pw (AClipPropertyChanged a) g = lift_action AClipPropertyChanged (ClipPropertyChanged_do a g)"
| "action_do ign pw (AClipAdded a) g = lift_result AClipAdded (ClipAdded_do a g)"
| "action_do ign pw (AClipRemoved a) g = lift_result AClipRemoved (ClipRemoved_do a g)"
| "action_do ign pw (ALayerAdded a) g = lift_action ALayerAdded (LayerAdded_do a g)"
| "action_do ign pw (ALayerRemoved a) g = lift_action ALayerRemoved (LayerRemoved_do a g)"
| "action_do ign pw (ALayerMoved a) g = lift_action ALayerMoved (LayerMoved_do a g)"
| "action_do ign pw (AControlSourceValueAdded a) g =
     lift_action AControlSourceValueAdded (ControlSourceValueAdded_do a g)"
| "action_do ign pw (AControlSourceValueRemoved a) g =
     lift_action AControlSourceValueRemoved (ControlSourceValueRemoved_do a g)"
| "action_do ign pw (AControlSourceKeyframeChanged a) g =
     lift_action AControlSourceKeyframeChanged (ControlSourceKeyframeChanged_do a g)"
| "action_do ign pw (AActivePropertyChanged a) g =
     lift_result AActivePropertyChanged (ActivePropertyChanged_do a g)"

fun action_undo :: "string list \<Rightarrow> properties_watcher \<Rightarrow> action \<Rightarrow> ges \<Rightarrow> error + action \<times> ges" where
  "action_undo ign pw (ATrackElementPropertyChanged a) g =
     lift_action ATrackElementPropertyChanged (TrackElementPropertyChanged_undo a g)"
| "action_undo ign pw (ATrackElementAdded a) g =
     lift_result ATrackElementAdded (TrackElementAdded_undo ign pw a g)"
| "action_undo ign pw (ATrackElementRemoved a) g =
     lift_action ATrackElementRemoved (TrackElementRemoved_undo a g)"
| "action_undo ign pw (AClipPropertyChanged a) g =
     lift_action AClipPropertyChanged (ClipPropertyChanged_undo a g)"
| "action_undo ign pw (AClipAdded a) g = lift_result AClipAdded (ClipAdded_undo a g)"
| "action_undo ign pw (AClipRemoved a) g = lift_result AClipRemoved (ClipRemoved_undo a g)"
| "action_undo ign pw (ALayerAdded a) g = lift_action ALayerAdded (LayerAdded_undo a g)"
| "action_undo ign pw (ALayerRemoved a) g = lift_action ALayerRemoved (LayerRemoved_undo a g)"
| "action_undo ign pw (ALayerMoved a) g = lift_action ALayerMoved (LayerMoved_undo a g)"
| "action_undo ign pw (AControlSourceValueAdded a) g =
     lift_action AControlSourceValueAdded (ControlSourceValueAdded_undo a g)"
| "action_undo ign pw (AControlSourceValueRemoved a) g =
     lift_action AControlSourceValueRemoved (ControlSourceValueRemoved_undo a g)"
| "action_undo ign pw (AControlSourceKeyframeChanged a) g =
     lift_action AControlSourceKeyframeChanged (ControlSourceKeyframeChanged_undo a g)"
| "action_undo ign pw (AActivePropertyChanged a) g =
     lift_result AActivePropertyChanged (ActivePropertyChanged_undo a g)"

fun action_status :: "action \<Rightarrow> status" where
  "action_status (ATrackElementPropertyChanged a) = status a"
| "action_status (ATrackElementAdded a) = status a"
| "action_status (ATrackElementRemoved a) = status a"
| "action_status (AClipPropertyChanged a) = status a"
| "action_status (AClipAdded a) = status a"
| "action_status (AClipRemoved a) = status a"
| "action_status (ALayerAdded a) = status a"
| "action_status (ALayerRemoved a) = status a"
| "action_status (ALayerMoved a) = status a"
| "action_status (AControlSourceValueAdded a) = status a"
| "action_status (AControlSourceValueRemoved a) = status a"
| "action_status (AControlSourceKeyframeChanged a) = status a"
| "action_status (AActivePropertyChanged a) = status a"


section \<open>Signal connections\<close>

text \<open>
  The objects the module connects handlers to, and the bound methods it connects.
  \<open>obj.connect(signal, callback, *args)\<close> adds a handler;
  \<open>obj.disconnect_by_func(callback)\<close> removes the handler connected last with
  that callback and raises TypeError when nothing is connected with it. Bound
  methods of one object are equal; every KeyframeChangeTracker has its own.
\<close>

datatype obj = OTrackElement nat | OControlSource nat | OKeyframeTracker nat

datatype callback =
    TrackElementTrackSetCb
  | PropertyChangedCb
  | KeyframeAddedCb nat
  | KeyframeRemovedCb nat
  | KeyframeMovedCb nat
  | ControlSourceKeyFrameAddedCb
  | ControlSourceKeyFrameRemovedCb
  | ControlSourceKeyFrameMovedCb

record handler =
  h_signal :: string
  h_callback :: callback
  h_args :: "(nat \<times> string) option"

type_synonym connections = "obj \<Rightarrow> handler list"

definition connect :: "obj \<Rightarrow> string \<Rightarrow> callback \<Rightarrow> (nat \<times> string) option \<Rightarrow> connections \<Rightarrow> connections" where
  "connect ob sig cb args cs = cs(ob := \<lparr>h_signal = sig, h_callback = cb, h_args = args\<rparr> # cs ob)"

fun drop_handler :: "callback \<Rightarrow> handler list \<Rightarrow> handler list" where
  "drop_handler cb [] = []"
| "drop_handler cb (h # hs) = (if h_callback h = cb then hs else h # drop_handler cb hs)"

definition disconnect_by_func :: "obj \<Rightarrow> callback \<Rightarrow> connections \<Rightarrow> error + connections" where
  "disconnect_by_func ob cb cs =
     (if cb \<in> h_callback ` set (cs ob) then Inr (cs(ob := drop_handler cb (cs ob)))
      else Inl TypeError)"

text \<open>The handlers a signal of an object runs.\<close>

definition handlers_of :: "connections \<Rightarrow> obj \<Rightarrow> string \<Rightarrow> handler list" where
  "handlers_of cs ob sig = filter (\<lambda>h. h_signal h = sig) (rev (cs ob))"

section \<open>The trackers and the observer\<close>

text \<open>
  A KeyframeChangeTracker: \<open>keyframes\<close> (\<open>None\<close> until connected, then timestamp to
  snapshot) and \<open>control_source\<close>.
\<close>

record keyframe_change_tracker =
  kct_keyframes :: "(int \<rightharpoonup> keyframe) option"
  kct_control_source :: "nat option"

text \<open>
  The state on the observing side: the connections, the dictionary
  \<open>_tracked_track_elements\<close> of the TrackElementChildPropertyTracker, the
  dictionary \<open>control_source_keyframe_trackers\<close> of the TimelineObserver with the
  trackers it refers to, the actions pushed to the action log, the debug messages
  and the scenario actions written through \<open>app.write_action\<close>.
\<close>

record observer =
  connections :: connections
  tracked_track_elements :: properties_watcher
  control_source_keyframe_trackers :: "nat \<rightharpoonup> nat"
  keyframe_trackers :: "nat \<Rightarrow> keyframe_change_tracker"
  next_tracker :: nat
  action_log :: "action list"
  debug_log :: "string list"
  written_actions :: "string list"

definition push :: "action \<Rightarrow> observer \<Rightarrow> observer" where
  "push a ob = ob\<lparr>action_log := action_log ob @ [a]\<rparr>"

definition debug :: "string \<Rightarrow> observer \<Rightarrow> observer" where
  "debug m ob = ob\<lparr>debug_log := debug_log ob @ [m]\<rparr>"

subsection \<open>TrackElementChildPropertyTracker\<close>

text \<open>The loop of \<open>_discoverChildProperties\<close> over \<open>list_children_properties()\<close>.\<close>

fun discover_loop :: "string list \<Rightarrow> track_element \<Rightarrow> pspec list \<Rightarrow> (string \<rightharpoonup> gvalue) \<Rightarrow> (string \<rightharpoonup> gvalue)" where
  "discover_loop ign te [] properties = properties"
| "discover_loop ign te (prop # props) properties =
     (if pname prop \<in> set ign then discover_loop ign te props properties
      else discover_loop ign te props
             (properties(child_property_name prop \<mapsto> get_child_property te (child_property_name prop))))"

definition discoverChildProperties :: "string list \<Rightarrow> nat \<Rightarrow> ges \<Rightarrow> observer \<Rightarrow> observer" where
  "discoverChildProperties ign te g ob =
     (let ob1 = ob\<lparr>connections := connect (OTrackElement te) ''deep-notify'' PropertyChangedCb None
                                     (connections ob)\<rparr>;
          properties = discover_loop ign (elements g te)
                         (list_children_properties (elements g te)) Map.empty
      in ob1\<lparr>tracked_track_elements := (tracked_track_elements ob1)(te \<mapsto> properties)\<rparr>)"

definition addTrackElement :: "string list \<Rightarrow> nat \<Rightarrow> ges \<Rightarrow> observer \<Rightarrow> observer" where
  "addTrackElement ign te g ob =
     (if te \<in> dom (tracked_track_elements ob) then ob
      else if te_track (elements g te) = None then
        ob\<lparr>connections := connect (OTrackElement te) ''notify::track'' TrackElementTrackSetCb None
                             (connections ob)\<rparr>
      else discoverChildProperties ign te g ob)"

definition trackElementTrackSetCb :: "string list \<Rightarrow> nat \<Rightarrow> ges \<Rightarrow> observer \<Rightarrow> error + observer" where
  "trackElementTrackSetCb ign te g ob =
     (let ob1 = discoverChildProperties ign te g ob in
      case disconnect_by_func (OTrackElement te) TrackElementTrackSetCb (connections ob1) of
        Inl e \<Rightarrow> Inl e
      | Inr cs \<Rightarrow> Inr (ob1\<lparr>connections := cs\<rparr>))"

definition getPropChangedFromTrackElement :: "observer \<Rightarrow> nat \<Rightarrow> error + (string \<rightharpoonup> gvalue)" where
  "getPropChangedFromTrackElement ob te =
     (case tracked_track_elements ob te of None \<Rightarrow> Inl KeyError | Some props \<Rightarrow> Inr props)"

definition propertyChangedCb :: "nat \<Rightarrow> pspec \<Rightarrow> ges \<Rightarrow> observer \<Rightarrow> error + observer" where
  "propertyChangedCb te ps g ob =
     (let pspec_name = child_property_name ps in
      if get_control_binding (elements g te) pspec_name \<noteq> None then
        Inr (debug ''Property controlled'' ob)
      else
        case tracked_track_elements ob te of
          None \<Rightarrow> Inl KeyError
        | Some props \<Rightarrow>
            (case props pspec_name of
               None \<Rightarrow> Inl KeyError
             | Some old_value \<Rightarrow>
                 (let new_value = get_child_property (elements g te) pspec_name;
                      action = TrackElementPropertyChanged_init te pspec_name old_value new_value;
                      ob1 = ob\<lparr>tracked_track_elements :=
                                 (tracked_track_elements ob)(te \<mapsto> props(pspec_name \<mapsto> new_value))\<rparr>
                  in Inr (push (ATrackElementPropertyChanged action) ob1))))"


subsection \<open>KeyframeChangeTracker\<close>

definition getKeyframeSnapshot :: "keyframe \<Rightarrow> keyframe" where
  "getKeyframeSnapshot k = (fst k, snd k)"

text \<open>\<open>_takeCurrentSnapshot\<close> reads \<open>self.control_source\<close>, not its argument.\<close>

definition takeCurrentSnapshot :: "keyframe_change_tracker \<Rightarrow> ges \<Rightarrow> error + (int \<rightharpoonup> keyframe)" where
  "takeCurrentSnapshot tr g =
     (case kct_control_source tr of
        None \<Rightarrow> Inl AttributeError
      | Some s \<Rightarrow> Inr (\<lambda>t. map_option (\<lambda>v. getKeyframeSnapshot (t, v)) (sources g s t)))"

definition update_tracker ::
  "nat \<Rightarrow> (keyframe_change_tracker \<Rightarrow> keyframe_change_tracker) \<Rightarrow> observer \<Rightarrow> observer" where
  "update_tracker t f ob = ob\<lparr>keyframe_trackers := (keyframe_trackers ob)(t := f (keyframe_trackers ob t))\<rparr>"

definition connectToObject :: "nat \<Rightarrow> nat \<Rightarrow> ges \<Rightarrow> observer \<Rightarrow> error + observer" where
  "connectToObject t s g ob =
     (let ob1 = update_tracker t (\<lambda>tr. tr\<lparr>kct_control_source := Some s\<rparr>) ob in
      case takeCurrentSnapshot (keyframe_trackers ob1 t) g of
        Inl e \<Rightarrow> Inl e
      | Inr ks \<Rightarrow>
          (let ob2 = update_tracker t (\<lambda>tr. tr\<lparr>kct_keyframes := Some ks\<rparr>) ob1 in
           Inr (ob2\<lparr>connections :=
                  connect (OControlSource s) ''value-changed'' (KeyframeMovedCb t) None
                    (connect (OControlSource s) ''value-removed'' (KeyframeRemovedCb t) None
                      (connect (OControlSource s) ''value-added'' (KeyframeAddedCb t) None
                        (connections ob2)))\<rparr>)))"

definition disconnectFromObject :: "nat \<Rightarrow> nat \<Rightarrow> observer \<Rightarrow> error + observer" where
  "disconnectFromObject t s ob =
     (let ob1 = update_tracker t (\<lambda>tr. tr\<lparr>kct_control_source := None\<rparr>) ob in
      case disconnect_by_func (OControlSource s) (KeyframeMovedCb t) (connections ob1) of
        Inl e \<Rightarrow> Inl e
      | Inr cs \<Rightarrow> Inr (ob1\<lparr>connections := cs\<rparr>))"

definition keyframeAddedCb :: "nat \<Rightarrow> keyframe \<Rightarrow> observer \<Rightarrow> error + observer" where
  "keyframeAddedCb t k ob =
     (case kct_keyframes (keyframe_trackers ob t) of
        None \<Rightarrow> Inl TypeError
      | Some ks \<Rightarrow>
          Inr (update_tracker t (\<lambda>tr. tr\<lparr>kct_keyframes := Some (ks(fst k \<mapsto> getKeyframeSnapshot k))\<rparr>) ob))"

definition keyframeRemovedCb :: "nat \<Rightarrow> keyframe \<Rightarrow> observer \<Rightarrow> error + observer" where
  "keyframeRemovedCb t k ob =
     (case kct_keyframes (keyframe_trackers ob t) of
        None \<Rightarrow> Inl TypeError
      | Some ks \<Rightarrow>
          (if fst k \<in> dom ks
           then Inr (update_tracker t (\<lambda>tr. tr\<lparr>kct_keyframes := Some (ks(fst k := None))\<rparr>) ob)
           else Inl KeyError))"

text \<open>\<open>_controlSourceKeyFrameMovedCb\<close> of the observer, the handler of "keyframe-moved".\<close>

definition controlSourceKeyFrameMovedCb :: "nat \<Rightarrow> keyframe \<Rightarrow> keyframe \<Rightarrow> observer \<Rightarrow> observer" where
  "controlSourceKeyFrameMovedCb s old_snapshot new_snapshot ob =
     push (AControlSourceKeyframeChanged (ControlSourceKeyframeChanged_init s old_snapshot new_snapshot)) ob"

text \<open>\<open>self.emit("keyframe-moved", ...)\<close>: one call of the observer's handler for
  each connection of the tracker's signal.\<close>

definition emit_keyframe_moved :: "nat \<Rightarrow> nat \<Rightarrow> keyframe \<Rightarrow> keyframe \<Rightarrow> observer \<Rightarrow> observer" where
  "emit_keyframe_moved t s old_snapshot new_snapshot ob =
     fold (\<lambda>h. if h_callback h = ControlSourceKeyFrameMovedCb
               then controlSourceKeyFrameMovedCb s old_snapshot new_snapshot else id)
       (handlers_of (connections ob) (OKeyframeTracker t) ''keyframe-moved'') ob"

definition keyframeMovedCb :: "nat \<Rightarrow> nat \<Rightarrow> keyframe \<Rightarrow> observer \<Rightarrow> error + observer" where
  "keyframeMovedCb t s k ob =
     (case kct_keyframes (keyframe_trackers ob t) of
        None \<Rightarrow> Inl TypeError
      | Some ks \<Rightarrow>
          (case ks (fst k) of
             None \<Rightarrow> Inl KeyError
           | Some old_snapshot \<Rightarrow>
               (let new_snapshot = getKeyframeSnapshot k;
                    ob1 = update_tracker t (\<lambda>tr. tr\<lparr>kct_keyframes := Some (ks(fst k \<mapsto> new_snapshot))\<rparr>) ob
                in Inr (emit_keyframe_moved t s old_snapshot new_snapshot ob1))))"

subsection \<open>TimelineObserver: control sources\<close>

text \<open>A binding is the pair of \<open>binding.props.name\<close> and \<open>binding.props.control_source\<close>.
  \<open>KeyframeChangeTracker()\<close> is a new tracker, with \<open>keyframes\<close> and
  \<open>control_source\<close> both \<open>None\<close>.\<close>

definition connectToControlSource :: "nat \<Rightarrow> string \<times> nat \<Rightarrow> bool \<Rightarrow> ges \<Rightarrow> observer \<Rightarrow> error + observer" where
  "connectToControlSource te binding existed g ob =
     (let s = snd binding;
          ob1 = ob\<lparr>connections :=
                  connect (OControlSource s) ''value-removed'' ControlSourceKeyFrameRemovedCb
                      (Some (te, fst binding))
                    (connect (OControlSource s) ''value-added'' ControlSourceKeyFrameAddedCb
                      (Some (te, fst binding)) (connections ob))\<rparr>;
          t = next_tracker ob1;
          ob2 = ob1\<lparr>next_tracker := Suc t,
                    keyframe_trackers := (keyframe_trackers ob1)
                      (t := \<lparr>kct_keyframes = None, kct_control_source = None\<rparr>)\<rparr>
      in case connectToObject t s g ob2 of
           Inl e \<Rightarrow> Inl e
         | Inr ob3 \<Rightarrow>
             (let ob4 = ob3\<lparr>connections :=
                          connect (OKeyframeTracker t) ''keyframe-moved'' ControlSourceKeyFrameMovedCb None
                            (connections ob3)\<rparr>;
                  ob5 = ob4\<lparr>control_source_keyframe_trackers :=
                          (control_source_keyframe_trackers ob4)(s \<mapsto> t)\<rparr>
              in Inr (if \<not> existed
                      then ob5\<lparr>written_actions := written_actions ob5 @ [''set-control-source'']\<rparr>
                      else ob5)))"

text \<open>The first \<open>try\<close> block: two disconnections, a TypeError of either ends the block.\<close>

definition disconnect_key_frame_cbs :: "nat \<Rightarrow> connections \<Rightarrow> error + connections" where
  "disconnect_key_frame_cbs s cs =
     (case disconnect_by_func (OControlSource s) ControlSourceKeyFrameAddedCb cs of
        Inl e \<Rightarrow> (if e = TypeError then Inr cs else Inl e)
      | Inr cs1 \<Rightarrow>
          (case disconnect_by_func (OControlSource s) ControlSourceKeyFrameRemovedCb cs1 of
             Inl e \<Rightarrow> (if e = TypeError then Inr cs1 else Inl e)
           | Inr cs2 \<Rightarrow> Inr cs2))"

text \<open>The second \<open>try\<close> block: only a KeyError is caught.\<close>

definition disconnect_tracker :: "nat \<Rightarrow> observer \<Rightarrow> error + observer" where
  "disconnect_tracker s ob =
     (case control_source_keyframe_trackers ob s of
        None \<Rightarrow> Inr (debug ''Control source already disconnected'' ob)
      | Some t \<Rightarrow>
          (let ob1 = ob\<lparr>control_source_keyframe_trackers := (control_source_keyframe_trackers ob)(s := None)\<rparr> in
           case disconnectFromObject t s ob1 of
             Inl e \<Rightarrow> (if e = KeyError then Inr (debug ''Control source already disconnected'' ob1) else Inl e)
           | Inr ob2 \<Rightarrow>
               (case disconnect_by_func (OKeyframeTracker t) ControlSourceKeyFrameMovedCb (connections ob2) of
                  Inl e \<Rightarrow> (if e = KeyError then Inr (debug ''Control source already disconnected'' ob2) else Inl e)
                | Inr cs \<Rightarrow> Inr (ob2\<lparr>connections := cs\<rparr>))))"

definition disconnectFromControlSource :: "string \<times> nat \<Rightarrow> observer \<Rightarrow> error + observer" where
  "disconnectFromControlSource binding ob =
     (let s = snd binding in
      case disconnect_key_frame_cbs s (connections ob) of
        Inl e \<Rightarrow> Inl e
      | Inr cs \<Rightarrow> disconnect_tracker s (ob\<lparr>connections := cs\<rparr>))"

text \<open>\<open>_trackElementActiveChangedCb\<close>.\<close>

definition trackElementActiveChangedCb :: "bool \<Rightarrow> track_element_added \<Rightarrow> observer \<Rightarrow> observer" where
  "trackElementActiveChangedCb active add_effect_action ob =
     push (AActivePropertyChanged (ActivePropertyChanged_init add_effect_action active)) ob"


section \<open>Observed state and example states\<close>



definition ex_ignore :: "string list" where
  "ex_ignore = [''name'', ''qos'', ''silent'', ''message'', ''parent'']"

definition p_lines :: pspec where
  "p_lines = \<lparr>owner_type = ''GstAgingTv'', pname = ''scratch-lines'', writable = True\<rparr>"

definition p_qos :: pspec where
  "p_qos = \<lparr>owner_type = ''GstAgingTv'', pname = ''qos'', writable = True\<rparr>"

definition p_dusts :: pspec where
  "p_dusts = \<lparr>owner_type = ''GstAgingTv'', pname = ''dusts'', writable = False\<rparr>"

definition ex_effect :: track_element where
  "ex_effect = \<lparr>te_asset = 3, te_track = Some 0, te_active = True,
     te_props = [(p_lines, VInt 7), (p_qos, VBool False), (p_dusts, VBool True)],
     te_bindings = []\<rparr>"

definition ex_bound_effect :: track_element where
  "ex_bound_effect = ex_effect\<lparr>te_bindings := [(''GstAgingTv::scratch-lines'', 4)]\<rparr>"

definition ex_detached_effect :: track_element where
  "ex_detached_effect = ex_effect\<lparr>te_track := None\<rparr>"

definition ex_clip :: clip where
  "ex_clip = \<lparr>clip_name = Some ''uriclip0'', clip_props = (\<lambda>_. VNone), clip_children = [1]\<rparr>"

text \<open>A store with one layer 0 holding clip 0, whose only track element 1 is the
  effect; elements 5 and 6 are the same effect with a binding and without a track.\<close>

definition ex_ges :: ges where
  "ex_ges =
     \<lparr>elements = (\<lambda>_. ex_effect)(5 := ex_bound_effect, 6 := ex_detached_effect),
      clips = (\<lambda>_. ex_clip),
      layers = (\<lambda>_. \<lparr>layer_priority = 0, layer_clips = {0}\<rparr>),
      timeline_layers = {0},
      sources = (\<lambda>_. Map.empty),
      assets = (\<lambda>_. ex_effect),
      next_element = 7,
      commits = 0\<rparr>"

definition ex_observer :: observer where
  "ex_observer =
     \<lparr>connections = (\<lambda>_. []),
      tracked_track_elements = Map.empty,
      control_source_keyframe_trackers = Map.empty,
      keyframe_trackers = (\<lambda>_. \<lparr>kct_keyframes = None, kct_control_source = None\<rparr>),
      next_tracker = 0,
      action_log = [],
      debug_log = [],
      written_actions = []\<rparr>"

text \<open>The observer after the effect 1 was registered.\<close>

definition ex_tracking :: observer where
  "ex_tracking = addTrackElement ex_ignore 1 ex_ges ex_observer"

definition ex_effect_action :: track_element_added where
  "ex_effect_action = TrackElementAdded_init 0 1 ex_ges"

text \<open>A binding of the property alpha to control source 4, the observer after
  \<open>_connectToControlSource\<close> for it, and after \<open>_disconnectFromControlSource\<close>.\<close>

definition ex_binding :: "string \<times> nat" where
  "ex_binding = (''alpha'', 4)"

definition ex_connected :: observer where
  "ex_connected =
     (case connectToControlSource 1 ex_binding True ex_ges ex_observer of
        Inr ob \<Rightarrow> ob | Inl e \<Rightarrow> ex_observer)"

definition ex_disconnected :: observer where
  "ex_disconnected =
     (case disconnectFromControlSource ex_binding ex_connected of
        Inr ob \<Rightarrow> ob | Inl e \<Rightarrow> ex_observer)"

text \<open>The snapshot of the effect, and the store after its scratch-lines property
  was set to 9.\<close>

definition ex_snapshot :: "string \<rightharpoonup> gvalue" where
  "ex_snapshot = [''GstAgingTv::scratch-lines'' \<mapsto> VInt 7, ''GstAgingTv::dusts'' \<mapsto> VBool True]"

definition ex_ges_changed :: ges where
  "ex_ges_changed = update_element 1 (set_child_property ''GstAgingTv::scratch-lines'' (VInt 9)) ex_ges"

text \<open>The store after the unattached effect 6 was attached to track 0.\<close>

definition ex_ges_attached :: ges where
  "ex_ges_attached = update_element 6 (\<lambda>te. te\<lparr>te_track := Some 0\<rparr>) ex_ges"

text \<open>The references of the clips' track elements were all handed out already.\<close>

definition allocated :: "ges \<Rightarrow> bool" where
  "allocated g = (\<forall>c. list_all (\<lambda>e. e < next_element g) (clip_children (clips g c)))"

definition ex_removed_action :: track_element_removed where
  "ex_removed_action = TrackElementRemoved_init 0 1 ex_ges"

text \<open>
  The actions the module builds. \<open>TrackElementAdded\<close> sets its properties to the
  empty list in the constructor and to what it captures in \<open>undo\<close>, so they name
  only child properties that \<open>undo\<close> captures from the element of its asset. A
  ControlSourceKeyframeChanged is built by \<open>_controlSourceKeyFrameMovedCb\<close> alone,
  from the two snapshots \<open>_keyframeMovedCb\<close> emits, which have one timestamp.
\<close>

fun built :: "string list \<Rightarrow> ges \<Rightarrow> action \<Rightarrow> bool" where
  "built ign g (ATrackElementAdded a) =
     (set (map fst (tea_track_element_props a))
        \<subseteq> set (map fst (capture_props ign (assets g (tea_asset a)))))"
| "built ign g (AControlSourceKeyframeChanged a) =
     (fst (ckc_old_snapshot a) = fst (ckc_new_snapshot a))"
| "built ign g a = True"

text \<open>Every snapshot in the cache of a KeyframeChangeTracker is stored under its
  own timestamp.\<close>

definition keyed :: "keyframe_change_tracker \<Rightarrow> bool" where
  "keyed tr = (case kct_keyframes tr of
                 None \<Rightarrow> True
               | Some ks \<Rightarrow> (\<forall>t k. ks t = Some k \<longrightarrow> fst k = t))"



text \<open>The store after the effect 6 was attached and its scratch-lines property
  set to 9.\<close>

definition ex_ges_attached_changed :: ges where
  "ex_ges_attached_changed =
     update_element 6 (set_child_property ''GstAgingTv::scratch-lines'' (VInt 9)) ex_ges_attached"



text \<open>Writing a list of properties in order, and the value the last entry of a
  name gives.\<close>

abbreviation writes :: "(string \<times> gvalue) list \<Rightarrow> (pspec \<times> gvalue) list \<Rightarrow> (pspec \<times> gvalue) list" where
  "writes \<equiv> fold (\<lambda>(n, v). write_child n v)"


section \<open>Properties\<close>


subsection \<open>Facts about the example states\<close>

lemma ex_tracking_tracked: "1 \<in> dom (tracked_track_elements ex_tracking)"
  by (simp add: ex_tracking_def addTrackElement_def ex_observer_def ex_ges_def ex_effect_def
      discoverChildProperties_def Let_def)

lemma ex_effect_action_element: "tea_track_element ex_effect_action = Some 1"
  by (simp add: ex_effect_action_def TrackElementAdded_init_def)

subsection \<open>Registering a track element twice\<close>

lemma ex_twice_handlers:
  "map h_callback (handlers_of
      (connections (addTrackElement ex_ignore 6 ex_ges (addTrackElement ex_ignore 6 ex_ges ex_observer)))
      (OTrackElement 6) ''notify::track'') = [TrackElementTrackSetCb, TrackElementTrackSetCb]"
  "map h_callback (handlers_of
      (connections (addTrackElement ex_ignore 6 ex_ges ex_observer))
      (OTrackElement 6) ''notify::track'') = [TrackElementTrackSetCb]"
  by (simp_all add: addTrackElement_def ex_observer_def ex_ges_def ex_detached_effect_def
      connect_def handlers_of_def)

text \<open>
  C10 as stated fails: the effect 6 has no track and is not tracked; registering
  it twice is not registering it once, for the second call connects a second
  handler of notify::track. The two runs of that handler leave two handlers of
  deep-notify, and one change of scratch-lines from 7 to 9 then pushes two
  actions, from 7 to 9 and from 9 to 9.
\<close>

theorem addTrackElement_twice_counterexample:
  "6 \<notin> dom (tracked_track_elements ex_observer) \<and>
   addTrackElement ex_ignore 6 ex_ges (addTrackElement ex_ignore 6 ex_ges ex_observer)
     \<noteq> addTrackElement ex_ignore 6 ex_ges ex_observer \<and>
   map h_callback (handlers_of
      (connections (addTrackElement ex_ignore 6 ex_ges (addTrackElement ex_ignore 6 ex_ges ex_observer)))
      (OTrackElement 6) ''notify::track'') = [TrackElementTrackSetCb, TrackElementTrackSetCb] \<and>
   (case trackElementTrackSetCb ex_ignore 6 ex_ges_attached
           (addTrackElement ex_ignore 6 ex_ges (addTrackElement ex_ignore 6 ex_ges ex_observer)) of
      Inl err \<Rightarrow> False
    | Inr ob3 \<Rightarrow>
        (case trackElementTrackSetCb ex_ignore 6 ex_ges_attached ob3 of
           Inl err \<Rightarrow> False
         | Inr ob4 \<Rightarrow>
             map h_callback (handlers_of (connections ob4) (OTrackElement 6) ''deep-notify'')
               = [PropertyChangedCb, PropertyChangedCb] \<and>
             (case propertyChangedCb 6 p_lines ex_ges_attached_changed ob4 of
                Inl err \<Rightarrow> False
              | Inr ob5 \<Rightarrow>
                  (case propertyChangedCb 6 p_lines ex_ges_attached_changed ob5 of
                     Inl err \<Rightarrow> False
                   | Inr ob6 \<Rightarrow>
                       action_log ob6 =
                         [ATrackElementPropertyChanged
                            (TrackElementPropertyChanged_init 6 ''GstAgingTv::scratch-lines'' (VInt 7) (VInt 9)),
                          ATrackElementPropertyChanged
                            (TrackElementPropertyChanged_init 6 ''GstAgingTv::scratch-lines'' (VInt 9) (VInt 9))]))))"
proof -
  have ne: "addTrackElement ex_ignore 6 ex_ges (addTrackElement ex_ignore 6 ex_ges ex_observer)
     \<noteq> addTrackElement ex_ignore 6 ex_ges ex_observer"
    using ex_twice_handlers by (metis list.inject not_Cons_self2)
  have rest: "(case trackElementTrackSetCb ex_ignore 6 ex_ges_attached
           (addTrackElement ex_ignore 6 ex_ges (addTrackElement ex_ignore 6 ex_ges ex_observer)) of
      Inl err \<Rightarrow> False
    | Inr ob3 \<Rightarrow>
        (case trackElementTrackSetCb ex_ignore 6 ex_ges_attached ob3 of
           Inl err \<Rightarrow> False
         | Inr ob4 \<Rightarrow>
             map h_callback (handlers_of (connections ob4) (OTrackElement 6) ''deep-notify'')
               = [PropertyChangedCb, PropertyChangedCb] \<and>
             (case propertyChangedCb 6 p_lines ex_ges_attached_changed ob4 of
                Inl err \<Rightarrow> False
              | Inr ob5 \<Rightarrow>
                  (case propertyChangedCb 6 p_lines ex_ges_attached_changed ob5 of
                     Inl err \<Rightarrow> False
                   | Inr ob6 \<Rightarrow>
                       action_log ob6 =
                         [ATrackElementPropertyChanged
                            (TrackElementPropertyChanged_init 6 ''GstAgingTv::scratch-lines'' (VInt 7) (VInt 9)),
                          ATrackElementPropertyChanged
                            (TrackElementPropertyChanged_init 6 ''GstAgingTv::scratch-lines'' (VInt 9) (VInt 9))]))))"
    by (simp add: addTrackElement_def trackElementTrackSetCb_def discoverChildProperties_def
        propertyChangedCb_def Let_def connect_def disconnect_by_func_def handlers_of_def
        ex_observer_def ex_ges_def ex_ges_attached_def ex_ges_attached_changed_def
        ex_detached_effect_def ex_effect_def update_element_def set_child_property_def
        get_child_property_def get_control_binding_def list_children_properties_def
        p_lines_def p_qos_def p_dusts_def child_property_name_def ex_ignore_def push_def
        TrackElementPropertyChanged_init_def)
  show ?thesis
    using ne ex_twice_handlers(1) rest by (simp add: ex_observer_def)
qed

text \<open>
  C10, amended. \<open>addTrackElement\<close> on a track element that is already tracked (a
  key of \<open>_tracked_track_elements\<close>: its child properties were discovered)
  returns at once: the snapshots, the connections and everything else on the
  observing side are what they were, so registering a tracked element again adds
  no subscription and cannot duplicate an action.
\<close>

theorem addTrackElement_tracked_unchanged:
  "te \<in> dom (tracked_track_elements ob) \<Longrightarrow> addTrackElement ign te g ob = ob"
  by (simp add: addTrackElement_def)

theorem addTrackElement_tracked_unchanged_witness:
  "1 \<in> dom (tracked_track_elements ex_tracking) \<and>
   addTrackElement ex_ignore 1 ex_ges ex_tracking = ex_tracking"
  using addTrackElement_tracked_unchanged [of 1 ex_tracking ex_ignore ex_ges] ex_tracking_tracked
  by simp


subsection \<open>The marks of the actions\<close>

text \<open>Nine of the thirteen classes mark as the state machine says.\<close>

lemma marks_of_the_other_classes:
  "status (fst (TrackElementPropertyChanged_do a1 g)) = Done \<and>
   status (fst (TrackElementPropertyChanged_undo a1 g)) = Undone \<and>
   status (fst (TrackElementAdded_do a2 g)) = Done \<and>
   status (fst (TrackElementRemoved_undo a3 g)) = Undone \<and>
   status (fst (ClipPropertyChanged_do a4 g)) = Done \<and>
   status (fst (ClipPropertyChanged_undo a4 g)) = Undone \<and>
   status (fst (ControlSourceValueAdded_do a6 g)) = Done \<and>
   status (fst (ControlSourceValueAdded_undo a6 g)) = Undone \<and>
   status (fst (ControlSourceKeyframeChanged_do a7 g)) = Done \<and>
   status (fst (ControlSourceKeyframeChanged_undo a7 g)) = Undone"
  by (simp add: TrackElementPropertyChanged_do_def TrackElementPropertyChanged_undo_def
      TrackElementAdded_do_def TrackElementRemoved_undo_def ClipPropertyChanged_do_def
      ClipPropertyChanged_undo_def ControlSourceValueAdded_do_def ControlSourceValueAdded_undo_def
      ControlSourceKeyframeChanged_do_def ControlSourceKeyframeChanged_undo_def
      UndoableAction_done_def UndoableAction_undone_def Let_def split_def)

lemma marks_of_the_failing_classes:
  "TrackElementAdded_undo ign pw a2 g = Inr (b2, g2) \<Longrightarrow> status b2 = Undone"
  "TrackElementRemoved_do ign pw a3 g = Inr (b3, g3) \<Longrightarrow> status b3 = Done"
  "ClipAdded_do a5 g = Inr (b5, g5) \<Longrightarrow> status b5 = Done"
  "ClipAdded_undo a5 g = Inr (c5, h5) \<Longrightarrow> status c5 = Undone"
  "ClipRemoved_do a5 g = Inr (d5, i5) \<Longrightarrow> status d5 = Done"
  "ClipRemoved_undo a5 g = Inr (e5, j5) \<Longrightarrow> status e5 = Undone"
  "ActivePropertyChanged_do a8 g = Inr (b8, g8) \<Longrightarrow> status b8 = Done"
  "ActivePropertyChanged_undo a8 g = Inr (c8, h8) \<Longrightarrow> status c8 = Undone"
  by (auto simp: TrackElementAdded_undo_def TrackElementRemoved_do_def ActivePropertyChanged_do_def
      ActivePropertyChanged_undo_def ClipAdded_do_def ClipAdded_undo_def ClipRemoved_do_def
      ClipRemoved_undo_def UndoableAction_done_def UndoableAction_undone_def Let_def
      split: option.splits)

text \<open>
  C2. Every action is marked done by \<open>do\<close> and undone by \<open>undo\<close>. The code does
  otherwise: \<open>ControlSourceValueRemoved.do\<close> marks the action undone and its
  \<open>undo\<close> marks it done, and the \<open>do\<close> of LayerAdded, LayerRemoved and
  LayerMoved leaves a pending action pending.
\<close>

theorem action_marks_evaluated:
  "map_sum id (action_status \<circ> fst)
     (action_do ign pw (AControlSourceValueRemoved (ControlSourceValueRemoved_init te s k n)) g)
     = Inr Undone \<and>
   map_sum id (action_status \<circ> fst)
     (action_undo ign pw (AControlSourceValueRemoved (ControlSourceValueRemoved_init te s k n)) g)
     = Inr Done \<and>
   map_sum id (action_status \<circ> fst) (action_do ign pw (ALayerAdded (LayerAdded_init l)) g)
     = Inr Pending \<and>
   map_sum id (action_status \<circ> fst) (action_do ign pw (ALayerRemoved (LayerRemoved_init l)) g)
     = Inr Pending \<and>
   map_sum id (action_status \<circ> fst) (action_do ign pw (ALayerMoved (LayerMoved_init l p q)) g)
     = Inr Pending"
  by (simp add: lift_action_def ControlSourceValueRemoved_do_def ControlSourceValueRemoved_undo_def
      ControlSourceValueRemoved_init_def LayerAdded_do_def LayerAdded_init_def LayerRemoved_do_def
      LayerRemoved_init_def LayerMoved_do_def LayerMoved_init_def
      UndoableAction_done_def UndoableAction_undone_def)

subsection \<open>The layer actions\<close>

text \<open>
  C6 as stated fails: \<open>LayerAdded.do\<close> changes the layers of the timeline and
  requests no commit.
\<close>

theorem layer_added_do_no_commit_counterexample:
  "timeline_layers (snd (LayerAdded_do (LayerAdded_init 1) ex_ges)) \<noteq> timeline_layers ex_ges \<and>
   commits (snd (LayerAdded_do (LayerAdded_init 1) ex_ges)) = commits ex_ges"
  by (simp add: LayerAdded_do_def LayerAdded_init_def add_layer_def ex_ges_def)

text \<open>
  C6, amended. \<open>LayerMoved.do\<close> writes the new priority of the layer and
  \<open>LayerMoved.undo\<close> the old one, and nothing else of the store changes, the
  number of commits included. The two methods that add the layer
  (\<open>LayerAdded.do\<close>, \<open>LayerRemoved.undo\<close>) change only the layers of the timeline
  and request no commit; the two that remove it (\<open>LayerAdded.undo\<close>,
  \<open>LayerRemoved.do\<close>) change the layers of the timeline and request one commit.
\<close>

theorem layer_actions_effects:
  "snd (LayerMoved_do a g) =
     g\<lparr>layers := (layers g)(lm_ges_layer a :=
          (layers g (lm_ges_layer a))\<lparr>layer_priority := lm_priority a\<rparr>)\<rparr> \<and>
   snd (LayerMoved_undo a g) =
     g\<lparr>layers := (layers g)(lm_ges_layer a :=
          (layers g (lm_ges_layer a))\<lparr>layer_priority := lm_old_priority a\<rparr>)\<rparr> \<and>
   snd (LayerAdded_do b g) = g\<lparr>timeline_layers := insert (la_ges_layer b) (timeline_layers g)\<rparr> \<and>
   snd (LayerRemoved_undo b g) = g\<lparr>timeline_layers := insert (la_ges_layer b) (timeline_layers g)\<rparr> \<and>
   snd (LayerAdded_undo b g) =
     g\<lparr>timeline_layers := timeline_layers g - {la_ges_layer b}, commits := Suc (commits g)\<rparr> \<and>
   snd (LayerRemoved_do b g) =
     g\<lparr>timeline_layers := timeline_layers g - {la_ges_layer b}, commits := Suc (commits g)\<rparr>"
  by (simp add: LayerMoved_do_def LayerMoved_undo_def LayerAdded_do_def LayerAdded_undo_def
      LayerRemoved_do_def LayerRemoved_undo_def set_priority_def update_layer_def add_layer_def
      remove_layer_def commit_timeline_def)

subsection \<open>The toggling flag of ActivePropertyChanged\<close>

lemma apc_effect_action_status [simp]:
  "apc_effect_action (a\<lparr>status := s\<rparr>) = apc_effect_action a"
  by (cases a) simp

text \<open>
  C8. An ActivePropertyChanged built with the new value \<open>active\<close> stores its
  negation. While the effect action holds a track element: \<open>undo\<close> writes the old
  value (the negation) to the element's active flag and the \<open>do\<close> after it writes
  the new value, leaving the action as it was built but for its mark, so the two
  alternate for ever; and of two \<open>do\<close> in a row, on any such action, the first
  writes the stored flag and the second its negation.
\<close>

theorem active_property_changed_toggles:
  assumes "tea_track_element ea = Some e"
  shows "apc_active (ActivePropertyChanged_init ea active) = (\<not> active) \<and>
    (case ActivePropertyChanged_undo (ActivePropertyChanged_init ea active) g of
       Inl err \<Rightarrow> False
     | Inr (a1, g1) \<Rightarrow>
         te_active (elements g1 e) = (\<not> active) \<and>
         (case ActivePropertyChanged_do a1 g1 of
            Inl err \<Rightarrow> False
          | Inr (a2, g2) \<Rightarrow>
              te_active (elements g2 e) = active \<and>
              a2 = (ActivePropertyChanged_init ea active)\<lparr>status := Done\<rparr>)) \<and>
    (case ActivePropertyChanged_do (a\<lparr>apc_effect_action := ea\<rparr>) g of
       Inl err \<Rightarrow> False
     | Inr (b1, h1) \<Rightarrow>
         te_active (elements h1 e) = apc_active a \<and>
         (case ActivePropertyChanged_do b1 h1 of
            Inl err \<Rightarrow> False
          | Inr (b2, h2) \<Rightarrow> te_active (elements h2 e) = (\<not> apc_active a)))"
  using assms
  by (simp add: ActivePropertyChanged_init_def ActivePropertyChanged_do_def
      ActivePropertyChanged_undo_def UndoableAction_done_def UndoableAction_undone_def
      update_element_def set_active_def)

theorem active_property_changed_toggles_witness:
  "tea_track_element ex_effect_action = Some 1 \<and>
   apc_active (ActivePropertyChanged_init ex_effect_action False) = (\<not> False) \<and>
    (case ActivePropertyChanged_undo (ActivePropertyChanged_init ex_effect_action False) ex_ges of
       Inl err \<Rightarrow> False
     | Inr (a1, g1) \<Rightarrow>
         te_active (elements g1 1) = (\<not> False) \<and>
         (case ActivePropertyChanged_do a1 g1 of
            Inl err \<Rightarrow> False
          | Inr (a2, g2) \<Rightarrow>
              te_active (elements g2 1) = False \<and>
              a2 = (ActivePropertyChanged_init ex_effect_action False)\<lparr>status := Done\<rparr>)) \<and>
    (case ActivePropertyChanged_do
            ((ActivePropertyChanged_init ex_effect_action False)\<lparr>apc_effect_action := ex_effect_action\<rparr>)
            ex_ges of
       Inl err \<Rightarrow> False
     | Inr (b1, h1) \<Rightarrow>
         te_active (elements h1 1) = apc_active (ActivePropertyChanged_init ex_effect_action False) \<and>
         (case ActivePropertyChanged_do b1 h1 of
            Inl err \<Rightarrow> False
          | Inr (b2, h2) \<Rightarrow>
              te_active (elements h2 1) = (\<not> apc_active (ActivePropertyChanged_init ex_effect_action False))))"
  using active_property_changed_toggles [OF ex_effect_action_element, of False ex_ges
      "ActivePropertyChanged_init ex_effect_action False"]
    ex_effect_action_element
  by blast

subsection \<open>Tearing down the observation of a control source\<close>

lemma ex_disconnect_ok: "disconnectFromControlSource ex_binding ex_connected = Inr ex_disconnected"
  unfolding ex_disconnected_def
  by (simp add: ex_connected_def connectToControlSource_def connectToObject_def Let_def
      takeCurrentSnapshot_def update_tracker_def ex_observer_def ex_binding_def connect_def ex_ges_def
      disconnectFromControlSource_def disconnect_key_frame_cbs_def disconnect_by_func_def
      disconnect_tracker_def disconnectFromObject_def)

lemma disconnect_by_func_error: "disconnect_by_func ob cb cs = Inl e \<Longrightarrow> e = TypeError"
  by (simp add: disconnect_by_func_def split: if_splits)

lemma disconnect_key_frame_cbs_returns: "\<exists>cs'. disconnect_key_frame_cbs s cs = Inr cs'"
  by (auto simp: disconnect_key_frame_cbs_def split: sum.splits dest: disconnect_by_func_error)

lemma disconnect_tracker_removes:
  "disconnect_tracker s ob = Inr ob' \<Longrightarrow> control_source_keyframe_trackers ob' s = None"
  by (auto simp: disconnect_tracker_def disconnectFromObject_def debug_def update_tracker_def Let_def
      split: option.splits sum.splits if_splits)

lemma disconnect_tracker_absent:
  "control_source_keyframe_trackers ob s = None \<Longrightarrow>
   disconnect_tracker s ob = Inr (debug ''Control source already disconnected'' ob)"
  by (simp add: disconnect_tracker_def)

text \<open>
  C9. After a call of \<open>_disconnectFromControlSource\<close> that returned, a second call
  for the same binding returns too: it raises nothing, writes the debug message
  and leaves the tracker map, the trackers and the action log as they are.
\<close>

theorem disconnectFromControlSource_twice:
  assumes "disconnectFromControlSource b ob = Inr ob1"
  shows "\<exists>ob2. disconnectFromControlSource b ob1 = Inr ob2 \<and>
           debug_log ob2 = debug_log ob1 @ [''Control source already disconnected''] \<and>
           control_source_keyframe_trackers ob2 = control_source_keyframe_trackers ob1 \<and>
           keyframe_trackers ob2 = keyframe_trackers ob1 \<and>
           action_log ob2 = action_log ob1"
proof -
  obtain cs where cs: "disconnect_key_frame_cbs (snd b) (connections ob) = Inr cs"
    using disconnect_key_frame_cbs_returns by blast
  with assms have "disconnect_tracker (snd b) (ob\<lparr>connections := cs\<rparr>) = Inr ob1"
    by (simp add: disconnectFromControlSource_def Let_def)
  then have gone: "control_source_keyframe_trackers ob1 (snd b) = None"
    by (rule disconnect_tracker_removes)
  obtain cs1 where cs1: "disconnect_key_frame_cbs (snd b) (connections ob1) = Inr cs1"
    using disconnect_key_frame_cbs_returns by blast
  have "disconnectFromControlSource b ob1 =
          Inr (debug ''Control source already disconnected'' (ob1\<lparr>connections := cs1\<rparr>))"
    using cs1 gone by (simp add: disconnectFromControlSource_def Let_def disconnect_tracker_absent)
  then show ?thesis by (simp add: debug_def)
qed

theorem disconnectFromControlSource_twice_witness:
  "disconnectFromControlSource ex_binding ex_connected = Inr ex_disconnected \<and>
   (\<exists>ob2. disconnectFromControlSource ex_binding ex_disconnected = Inr ob2 \<and>
           debug_log ob2 = debug_log ex_disconnected @ [''Control source already disconnected''] \<and>
           control_source_keyframe_trackers ob2 = control_source_keyframe_trackers ex_disconnected \<and>
           keyframe_trackers ob2 = keyframe_trackers ex_disconnected \<and>
           action_log ob2 = action_log ex_disconnected)"
  using disconnectFromControlSource_twice [OF ex_disconnect_ok] ex_disconnect_ok by blast

subsection \<open>Detaching a KeyframeChangeTracker\<close>

text \<open>On any state, detaching keeps the cache and every handler but the one of
  value-changed.\<close>

lemma drop_handler_keeps:
  "h \<in> set hs \<Longrightarrow> h_callback h \<noteq> cb \<Longrightarrow> h \<in> set (drop_handler cb hs)"
  by (induction hs) auto

lemma disconnectFromObject_keeps:
  assumes "disconnectFromObject t s ob = Inr ob'"
  shows "kct_keyframes (keyframe_trackers ob' t) = kct_keyframes (keyframe_trackers ob t)"
    and "h \<in> set (connections ob (OControlSource s)) \<Longrightarrow> h_callback h \<noteq> KeyframeMovedCb t
           \<Longrightarrow> h \<in> set (connections ob' (OControlSource s))"
  using assms
  by (auto simp: disconnectFromObject_def disconnect_by_func_def update_tracker_def Let_def
      drop_handler_keeps split: if_splits)

text \<open>
  C7. Detaching clears the cache and removes the three subscriptions. The code does
  otherwise: a tracker connected to the empty control source 4 and then detached
  keeps its cache and its handlers of value-added and value-removed (only the
  handler of value-changed is gone), and a value-added notification for the
  keyframe (10, 1) then writes to the cache.
\<close>

theorem disconnectFromObject_leaves_subscriptions:
  "(case connectToObject 0 4 ex_ges ex_observer of
      Inl e \<Rightarrow> False
    | Inr ob1 \<Rightarrow>
        (case disconnectFromObject 0 4 ob1 of
           Inl e \<Rightarrow> False
         | Inr ob2 \<Rightarrow>
             kct_keyframes (keyframe_trackers ob2 0) = Some Map.empty \<and>
             map h_callback (handlers_of (connections ob2) (OControlSource 4) ''value-added'')
               = [KeyframeAddedCb 0] \<and>
             map h_callback (handlers_of (connections ob2) (OControlSource 4) ''value-removed'')
               = [KeyframeRemovedCb 0] \<and>
             map h_callback (handlers_of (connections ob2) (OControlSource 4) ''value-changed'') = [] \<and>
             (case keyframeAddedCb 0 (10, VInt 1) ob2 of
                Inl e \<Rightarrow> False
              | Inr ob3 \<Rightarrow>
                  kct_keyframes (keyframe_trackers ob3 0) = Some [10 \<mapsto> (10, VInt 1)])))"
  by (simp add: connectToObject_def disconnectFromObject_def Let_def takeCurrentSnapshot_def
      update_tracker_def ex_observer_def connect_def ex_ges_def disconnect_by_func_def
      handlers_of_def keyframeAddedCb_def getKeyframeSnapshot_def)

subsection \<open>The child property tracker\<close>

lemma discover_loop_eq:
  "discover_loop ign te ps m =
     (\<lambda>n. if n \<in> child_property_name ` {p \<in> set ps. pname p \<notin> set ign}
          then Some (get_child_property te n) else m n)"
  by (induction ps arbitrary: m) (auto simp: fun_eq_iff)

lemma ex_tracking_snapshot: "tracked_track_elements ex_tracking 1 = Some ex_snapshot"
  by (simp add: ex_tracking_def addTrackElement_def ex_observer_def ex_ges_def ex_effect_def
      discoverChildProperties_def Let_def list_children_properties_def get_child_property_def
      p_qos_def p_lines_def p_dusts_def child_property_name_def ex_ignore_def ex_snapshot_def)

text \<open>
  C3 as stated fails: the effect 1 is tracked and its property qos, which is on
  the ignore list and so has no entry in the snapshot, is bound to no control
  source; the notification for it raises KeyError and pushes nothing.
\<close>

theorem propertyChangedCb_counterexample:
  "1 \<in> dom (tracked_track_elements ex_tracking) \<and>
   p_qos \<in> set (list_children_properties (elements ex_ges 1)) \<and>
   get_control_binding (elements ex_ges 1) (child_property_name p_qos) = None \<and>
   propertyChangedCb 1 p_qos ex_ges ex_tracking = Inl KeyError"
  by (simp add: ex_tracking_def addTrackElement_def ex_observer_def ex_ges_def ex_effect_def
      discoverChildProperties_def Let_def list_children_properties_def get_control_binding_def
      propertyChangedCb_def p_qos_def p_lines_def p_dusts_def child_property_name_def ex_ignore_def)

text \<open>
  C3, amended. On a child-property-changed notification: if the property has a
  control binding, the handler returns, the action log and the snapshots are what
  they were; if it has none and the snapshot of the track element has an entry
  for the property, the handler returns, exactly one TrackElementPropertyChanged
  with the old value of the snapshot and the live new value is pushed, and the
  entry becomes the new value.
\<close>

theorem propertyChangedCb_effect:
  "(get_control_binding (elements g te) (child_property_name ps) \<noteq> None \<longrightarrow>
      (case propertyChangedCb te ps g ob of
         Inl e \<Rightarrow> False
       | Inr ob' \<Rightarrow>
           action_log ob' = action_log ob \<and>
           tracked_track_elements ob' = tracked_track_elements ob)) \<and>
   (get_control_binding (elements g te) (child_property_name ps) = None \<and>
    tracked_track_elements ob te = Some props \<and> props (child_property_name ps) = Some old \<longrightarrow>
      (case propertyChangedCb te ps g ob of
         Inl e \<Rightarrow> False
       | Inr ob' \<Rightarrow>
           action_log ob' = action_log ob @
             [ATrackElementPropertyChanged
                (TrackElementPropertyChanged_init te (child_property_name ps) old
                   (get_child_property (elements g te) (child_property_name ps)))] \<and>
           tracked_track_elements ob' = (tracked_track_elements ob)
             (te \<mapsto> props(child_property_name ps \<mapsto>
                       get_child_property (elements g te) (child_property_name ps)))))"
  by (simp add: propertyChangedCb_def Let_def debug_def push_def)

theorem propertyChangedCb_effect_witness:
  "get_control_binding (elements ex_ges_changed 5) (child_property_name p_lines) \<noteq> None \<and>
   (case propertyChangedCb 5 p_lines ex_ges_changed ex_tracking of
      Inl e \<Rightarrow> False
    | Inr ob' \<Rightarrow>
        action_log ob' = action_log ex_tracking \<and>
        tracked_track_elements ob' = tracked_track_elements ex_tracking) \<and>
   get_control_binding (elements ex_ges_changed 1) (child_property_name p_lines) = None \<and>
   tracked_track_elements ex_tracking 1 = Some ex_snapshot \<and>
   ex_snapshot (child_property_name p_lines) = Some (VInt 7) \<and>
   get_child_property (elements ex_ges_changed 1) (child_property_name p_lines) = VInt 9 \<and>
   (case propertyChangedCb 1 p_lines ex_ges_changed ex_tracking of
      Inl e \<Rightarrow> False
    | Inr ob' \<Rightarrow>
        action_log ob' = action_log ex_tracking @
          [ATrackElementPropertyChanged
             (TrackElementPropertyChanged_init 1 (child_property_name p_lines) (VInt 7)
                (get_child_property (elements ex_ges_changed 1) (child_property_name p_lines)))] \<and>
        tracked_track_elements ob' = (tracked_track_elements ex_tracking)
          (1 \<mapsto> ex_snapshot(child_property_name p_lines \<mapsto>
                    get_child_property (elements ex_ges_changed 1) (child_property_name p_lines))))"
proof -
  have b: "get_control_binding (elements ex_ges_changed 5) (child_property_name p_lines) \<noteq> None"
    by (simp add: ex_ges_changed_def update_element_def ex_ges_def ex_bound_effect_def
        get_control_binding_def child_property_name_def p_lines_def)
  have u: "get_control_binding (elements ex_ges_changed 1) (child_property_name p_lines) = None"
    by (simp add: ex_ges_changed_def update_element_def ex_ges_def ex_effect_def
        get_control_binding_def set_child_property_def)
  have s: "ex_snapshot (child_property_name p_lines) = Some (VInt 7)"
    by (simp add: ex_snapshot_def child_property_name_def p_lines_def)
  have v: "get_child_property (elements ex_ges_changed 1) (child_property_name p_lines) = VInt 9"
    by (simp add: ex_ges_changed_def update_element_def ex_ges_def ex_effect_def
        get_child_property_def set_child_property_def child_property_name_def p_lines_def)
  show ?thesis
    using propertyChangedCb_effect [of ex_ges_changed 5 p_lines ex_tracking ex_snapshot "VInt 7"]
      propertyChangedCb_effect [of ex_ges_changed 1 p_lines ex_tracking ex_snapshot "VInt 7"]
      b u s v ex_tracking_snapshot
    by simp
qed

text \<open>
  C4. \<open>addTrackElement\<close> on a track element that is not tracked and has no track
  only connects the handler of notify::track: nothing is discovered. When that
  handler runs (on the store \<open>g'\<close> of that moment) it returns, the connections of
  the element are the ones before the registration plus one handler of
  deep-notify (the handler of notify::track is gone), and the element's snapshot
  holds, for the name of every child property whose name is not on the ignore
  list, the current value, and nothing else.
\<close>

theorem addTrackElement_deferred:
  assumes "te \<notin> dom (tracked_track_elements ob)" and "te_track (elements g te) = None"
  shows "addTrackElement ign te g ob =
           ob\<lparr>connections := connect (OTrackElement te) ''notify::track'' TrackElementTrackSetCb None
                                (connections ob)\<rparr> \<and>
         (case trackElementTrackSetCb ign te g' (addTrackElement ign te g ob) of
            Inl e \<Rightarrow> False
          | Inr ob' \<Rightarrow>
              connections ob' = (connections ob)
                (OTrackElement te :=
                   \<lparr>h_signal = ''deep-notify'', h_callback = PropertyChangedCb, h_args = None\<rparr>
                     # connections ob (OTrackElement te)) \<and>
              tracked_track_elements ob' = (tracked_track_elements ob)
                (te \<mapsto> (\<lambda>n. if n \<in> child_property_name `
                                  {p \<in> set (list_children_properties (elements g' te)). pname p \<notin> set ign}
                              then Some (get_child_property (elements g' te) n) else None)))"
  using assms
  by (simp add: addTrackElement_def trackElementTrackSetCb_def discoverChildProperties_def Let_def
      connect_def disconnect_by_func_def discover_loop_eq)


theorem addTrackElement_deferred_witness:
  "6 \<notin> dom (tracked_track_elements ex_observer) \<and> te_track (elements ex_ges 6) = None \<and>
   addTrackElement ex_ignore 6 ex_ges ex_observer =
           ex_observer\<lparr>connections := connect (OTrackElement 6) ''notify::track'' TrackElementTrackSetCb None
                                (connections ex_observer)\<rparr> \<and>
         (case trackElementTrackSetCb ex_ignore 6 ex_ges_attached (addTrackElement ex_ignore 6 ex_ges ex_observer) of
            Inl e \<Rightarrow> False
          | Inr ob' \<Rightarrow>
              connections ob' = (connections ex_observer)
                (OTrackElement 6 :=
                   \<lparr>h_signal = ''deep-notify'', h_callback = PropertyChangedCb, h_args = None\<rparr>
                     # connections ex_observer (OTrackElement 6)) \<and>
              tracked_track_elements ob' = (tracked_track_elements ex_observer)
                (6 \<mapsto> (\<lambda>n. if n \<in> child_property_name `
                                  {p \<in> set (list_children_properties (elements ex_ges_attached 6)). pname p \<notin> set ex_ignore}
                              then Some (get_child_property (elements ex_ges_attached 6) n) else None)))"
proof -
  have h1: "6 \<notin> dom (tracked_track_elements ex_observer)"
    by (simp add: ex_observer_def)
  have h2: "te_track (elements ex_ges 6) = None"
    by (simp add: ex_ges_def ex_detached_effect_def)
  from addTrackElement_deferred [OF h1 h2, of ex_ignore ex_ges_attached] h1 h2
  show ?thesis by blast
qed

subsection \<open>Adding and removing a track element\<close>

lemma update_element_twice:
  "update_element e f (update_element e h g) = update_element e (\<lambda>te. f (h te)) g"
  by (cases g) (simp add: update_element_def)

lemma restore_props_update:
  "restore_props e ps g =
     update_element e (\<lambda>te. te\<lparr>te_props := fold (\<lambda>(n, v). write_child n v) ps (te_props te)\<rparr>) g"
proof (induction ps arbitrary: g)
  case Nil
  then show ?case by (cases g) (simp add: restore_props_def update_element_def)
next
  case (Cons p ps)
  obtain n v where p: "p = (n, v)" by (cases p)
  have step: "restore_props e (p # ps) g =
          restore_props e ps (update_element e (set_child_property n v) g)"
    by (simp add: restore_props_def p)
  show ?case
    unfolding step Cons.IH update_element_twice
    by (simp add: set_child_property_def p)
qed

lemma restore_props_eq:
  "restore_props e ps g =
     g\<lparr>elements := (elements g)(e := (elements g e)
          \<lparr>te_props := fold (\<lambda>(n, v). write_child n v) ps (te_props (elements g e))\<rparr>)\<rparr>"
  by (simp add: restore_props_update update_element_def)

lemma ex_ges_allocated: "allocated ex_ges"
  by (simp add: allocated_def ex_ges_def ex_clip_def)

lemma ex_capture:
  "capture_props ex_ignore (elements ex_ges 1) = [(''GstAgingTv::scratch-lines'', VInt 7)]"
  by (simp add: capture_props_def ex_ges_def ex_effect_def list_children_properties_def
      get_child_property_def p_lines_def p_qos_def p_dusts_def child_property_name_def ex_ignore_def)

text \<open>
  C5. In a store whose clips hold only references handed out already, for an
  action whose track element is known to the properties watcher:
  \<open>TrackElementAdded.undo\<close> returns, its captured properties are the names and
  the values, read before the removal, of the writable child properties whose
  name is not on the ignore list, the element is no longer a child of the clip,
  and the action holds no element; the \<open>do\<close> after it takes a new reference
  (not the old element, not a child of the clip), appends it to the clip, and the
  new element is the one the stored asset extracts with the captured properties
  written to it in order. \<open>TrackElementRemoved\<close> does the same with \<open>do\<close> and
  \<open>undo\<close> exchanged.
\<close>

theorem track_element_added_removed_reinstantiate:
  assumes "allocated g"
    and "tea_track_element a = Some e" and "e < next_element g" and "pw e = Some changed"
    and "ter_track_element r = Some e'" and "e' < next_element g" and "pw e' = Some changed'"
  shows
   "(case TrackElementAdded_undo ign pw a g of
       Inl err \<Rightarrow> False
     | Inr (a1, g1) \<Rightarrow>
         tea_track_element_props a1 =
           map (\<lambda>p. (child_property_name p, get_child_property (elements g e) (child_property_name p)))
             (filter (\<lambda>p. writable p \<and> pname p \<notin> set ign) (list_children_properties (elements g e))) \<and>
         e \<notin> set (clip_children (clips g1 (tea_clip a))) \<and>
         tea_track_element a1 = None \<and> tea_asset a1 = tea_asset a \<and>
         (case TrackElementAdded_do a1 g1 of (a2, g2) \<Rightarrow>
            tea_track_element a2 = Some (next_element g) \<and> next_element g \<noteq> e \<and>
            next_element g \<notin> set (clip_children (clips g (tea_clip a))) \<and>
            clip_children (clips g2 (tea_clip a)) = clip_children (clips g1 (tea_clip a)) @ [next_element g] \<and>
            elements g2 (next_element g) = (assets g (tea_asset a))
              \<lparr>te_props := fold (\<lambda>(n, v). write_child n v) (tea_track_element_props a1)
                             (te_props (assets g (tea_asset a)))\<rparr>)) \<and>
    (case TrackElementRemoved_do ign pw r g of
       Inl err \<Rightarrow> False
     | Inr (r1, g1) \<Rightarrow>
         ter_track_element_props r1 =
           map (\<lambda>p. (child_property_name p, get_child_property (elements g e') (child_property_name p)))
             (filter (\<lambda>p. writable p \<and> pname p \<notin> set ign) (list_children_properties (elements g e'))) \<and>
         e' \<notin> set (clip_children (clips g1 (ter_clip r))) \<and>
         ter_track_element r1 = None \<and> ter_asset r1 = ter_asset r \<and>
         (case TrackElementRemoved_undo r1 g1 of (r2, g2) \<Rightarrow>
            ter_track_element r2 = Some (next_element g) \<and> next_element g \<noteq> e' \<and>
            next_element g \<notin> set (clip_children (clips g (ter_clip r))) \<and>
            clip_children (clips g2 (ter_clip r)) = clip_children (clips g1 (ter_clip r)) @ [next_element g] \<and>
            elements g2 (next_element g) = (assets g (ter_asset r))
              \<lparr>te_props := fold (\<lambda>(n, v). write_child n v) (ter_track_element_props r1)
                             (te_props (assets g (ter_asset r)))\<rparr>))"
proof -
  have fresh: "next_element g \<notin> set (clip_children (clips g c))" for c
    using assms(1) by (auto simp: allocated_def list_all_iff)
  show ?thesis
    using assms(2-7) fresh
    by (simp add: TrackElementAdded_undo_def TrackElementAdded_do_def TrackElementRemoved_do_def
        TrackElementRemoved_undo_def capture_props_def Let_def clip_remove_def update_clip_def
        add_asset_def restore_props_eq UndoableAction_done_def UndoableAction_undone_def)
qed

theorem track_element_added_removed_reinstantiate_witness:
  "allocated ex_ges \<and> tea_track_element ex_effect_action = Some 1 \<and> 1 < next_element ex_ges \<and>
   tracked_track_elements ex_tracking 1 = Some ex_snapshot \<and>
   ter_track_element ex_removed_action = Some 1 \<and>
   (case TrackElementAdded_undo ex_ignore (tracked_track_elements ex_tracking) ex_effect_action ex_ges of
       Inl err \<Rightarrow> False
     | Inr (a1, g1) \<Rightarrow>
         tea_track_element_props a1 =
           map (\<lambda>p. (child_property_name p, get_child_property (elements ex_ges 1) (child_property_name p)))
             (filter (\<lambda>p. writable p \<and> pname p \<notin> set ex_ignore)
                (list_children_properties (elements ex_ges 1))) \<and>
         1 \<notin> set (clip_children (clips g1 (tea_clip ex_effect_action))) \<and>
         tea_track_element a1 = None \<and> tea_asset a1 = tea_asset ex_effect_action \<and>
         (case TrackElementAdded_do a1 g1 of (a2, g2) \<Rightarrow>
            tea_track_element a2 = Some (next_element ex_ges) \<and> next_element ex_ges \<noteq> 1 \<and>
            next_element ex_ges \<notin> set (clip_children (clips ex_ges (tea_clip ex_effect_action))) \<and>
            clip_children (clips g2 (tea_clip ex_effect_action)) =
              clip_children (clips g1 (tea_clip ex_effect_action)) @ [next_element ex_ges] \<and>
            elements g2 (next_element ex_ges) = (assets ex_ges (tea_asset ex_effect_action))
              \<lparr>te_props := fold (\<lambda>(n, v). write_child n v) (tea_track_element_props a1)
                             (te_props (assets ex_ges (tea_asset ex_effect_action)))\<rparr>)) \<and>
    (case TrackElementRemoved_do ex_ignore (tracked_track_elements ex_tracking) ex_removed_action ex_ges of
       Inl err \<Rightarrow> False
     | Inr (r1, g1) \<Rightarrow>
         ter_track_element_props r1 =
           map (\<lambda>p. (child_property_name p, get_child_property (elements ex_ges 1) (child_property_name p)))
             (filter (\<lambda>p. writable p \<and> pname p \<notin> set ex_ignore)
                (list_children_properties (elements ex_ges 1))) \<and>
         1 \<notin> set (clip_children (clips g1 (ter_clip ex_removed_action))) \<and>
         ter_track_element r1 = None \<and> ter_asset r1 = ter_asset ex_removed_action \<and>
         (case TrackElementRemoved_undo r1 g1 of (r2, g2) \<Rightarrow>
            ter_track_element r2 = Some (next_element ex_ges) \<and> next_element ex_ges \<noteq> 1 \<and>
            next_element ex_ges \<notin> set (clip_children (clips ex_ges (ter_clip ex_removed_action))) \<and>
            clip_children (clips g2 (ter_clip ex_removed_action)) =
              clip_children (clips g1 (ter_clip ex_removed_action)) @ [next_element ex_ges] \<and>
            elements g2 (next_element ex_ges) = (assets ex_ges (ter_asset ex_removed_action))
              \<lparr>te_props := fold (\<lambda>(n, v). write_child n v) (ter_track_element_props r1)
                             (te_props (assets ex_ges (ter_asset ex_removed_action)))\<rparr>))"
proof -
  have h3: "(1::nat) < next_element ex_ges"
    by (simp add: ex_ges_def)
  have h5: "ter_track_element ex_removed_action = Some 1"
    by (simp add: ex_removed_action_def TrackElementRemoved_init_def)
  from track_element_added_removed_reinstantiate
         [where g = ex_ges and a = ex_effect_action and e = 1 and r = ex_removed_action and e' = 1
            and pw = "tracked_track_elements ex_tracking" and changed = ex_snapshot
            and changed' = ex_snapshot and ign = ex_ignore]
       ex_ges_allocated ex_effect_action_element h3 ex_tracking_snapshot h5
  show ?thesis by blast
qed

subsection \<open>Replaying an action\<close>

lemma writes_Nil [simp]: "writes P [] = []"
  by (induction P) auto






lemma map_fst_write_child [simp]: "map fst (write_child n v xs) = map fst xs"
  by (induction xs) auto

lemma map_fst_writes [simp]: "map fst (writes P xs) = map fst xs"
  by (induction P arbitrary: xs) auto

lemma lookup_child_declared: "q \<in> fst ` set ys \<Longrightarrow> lookup_child ys (child_property_name q) \<noteq> None"
  by (induction ys) force+

lemma capture_names:
  "map fst (capture_props ign te) =
     map child_property_name (filter (\<lambda>p. writable p \<and> pname p \<notin> set ign) (map fst (te_props te)))"
  by (simp add: capture_props_def list_children_properties_def comp_def)







lemma write_child_twice [simp]:
  "write_child n v (write_child n w xs) = write_child n v xs"
  by (induction xs) auto














lemma lift_action_returns: "\<exists>b h. lift_action C r = Inr (b, h)"
  by (simp add: lift_action_def)




text \<open>The hypotheses of the replay hold of what the module builds and keep holding:
  a store stays allocated, a TrackElementAdded stays built through \<open>do\<close> and
  \<open>undo\<close>, and the cache of a KeyframeChangeTracker stays keyed, so that every
  action \<open>_keyframeMovedCb\<close> has pushed is built.\<close>

lemma allocated_after_do:
  "allocated g \<Longrightarrow> action_do ign pw a g = Inr (a', g') \<Longrightarrow> allocated g'"
  by (cases a)
     (auto simp: allocated_def list_all_iff lift_action_def lift_result_def
        TrackElementPropertyChanged_do_def TrackElementAdded_do_def TrackElementRemoved_do_def
        ClipPropertyChanged_do_def ClipAdded_do_def ClipRemoved_do_def LayerAdded_do_def
        LayerRemoved_do_def LayerMoved_do_def ControlSourceValueAdded_do_def
        ControlSourceValueRemoved_do_def ControlSourceKeyframeChanged_do_def
        ActivePropertyChanged_do_def applySnapshot_def restore_props_eq
        update_element_def update_clip_def update_layer_def add_asset_def clip_remove_def
        set_name_def set_property_def add_clip_def remove_clip_def add_layer_def remove_layer_def
        set_priority_def cs_set_def cs_unset_def commit_timeline_def Let_def less_Suc_eq
        split: sum.splits option.splits prod.splits if_splits)

lemma allocated_after_undo:
  "allocated g \<Longrightarrow> action_undo ign pw a g = Inr (a', g') \<Longrightarrow> allocated g'"
  by (cases a)
     (auto simp: allocated_def list_all_iff lift_action_def lift_result_def
        TrackElementPropertyChanged_undo_def TrackElementAdded_undo_def TrackElementRemoved_undo_def
        ClipPropertyChanged_undo_def ClipAdded_undo_def ClipRemoved_undo_def LayerAdded_undo_def
        LayerRemoved_undo_def LayerMoved_undo_def ControlSourceValueAdded_undo_def
        ControlSourceValueRemoved_undo_def ControlSourceKeyframeChanged_undo_def
        ActivePropertyChanged_undo_def applySnapshot_def restore_props_eq
        update_element_def update_clip_def update_layer_def add_asset_def clip_remove_def
        set_name_def set_property_def add_clip_def remove_clip_def add_layer_def remove_layer_def
        set_priority_def cs_set_def cs_unset_def commit_timeline_def Let_def less_Suc_eq
        split: sum.splits option.splits prod.splits if_splits)

lemma built_after_init: "built ign g (ATrackElementAdded (TrackElementAdded_init c te g'))"
  by (simp add: TrackElementAdded_init_def)

lemma built_after_do:
  "built ign g (ATrackElementAdded a) \<Longrightarrow> TrackElementAdded_do a g = (a', g') \<Longrightarrow>
   built ign g' (ATrackElementAdded a')"
  by (cases g) (auto simp: TrackElementAdded_do_def add_asset_def Let_def restore_props_eq
      update_clip_def UndoableAction_done_def simp del: set_map)

lemma held_after_do:
  "TrackElementAdded_do a g = (a', g') \<Longrightarrow>
   \<exists>e. tea_track_element a' = Some e \<and>
       map fst (te_props (elements g' e)) = map fst (te_props (assets g' (tea_asset a')))"
  by (auto simp: TrackElementAdded_do_def add_asset_def Let_def restore_props_eq
      update_clip_def UndoableAction_done_def)

lemma built_after_undo:
  assumes "TrackElementAdded_undo ign pw a g = Inr (a', g')" and "tea_track_element a = Some e"
    and "map fst (te_props (elements g e)) = map fst (te_props (assets g (tea_asset a)))"
  shows "built ign g' (ATrackElementAdded a')"
  using assms
  by (auto simp: TrackElementAdded_undo_def Let_def UndoableAction_undone_def clip_remove_def
      update_clip_def capture_names simp del: set_map split: option.splits)

lemma keyed_connectToObject:
  "connectToObject t s g ob = Inr ob' \<Longrightarrow> keyed (keyframe_trackers ob' t)"
  by (auto simp: connectToObject_def takeCurrentSnapshot_def update_tracker_def Let_def keyed_def
      getKeyframeSnapshot_def split: option.splits sum.splits)

lemma keyed_keyframeAddedCb:
  "keyed (keyframe_trackers ob t) \<Longrightarrow> keyframeAddedCb t k ob = Inr ob' \<Longrightarrow>
   keyed (keyframe_trackers ob' t)"
  by (auto simp: keyframeAddedCb_def update_tracker_def keyed_def getKeyframeSnapshot_def
      split: option.splits if_splits)

lemma keyed_keyframeRemovedCb:
  "keyed (keyframe_trackers ob t) \<Longrightarrow> keyframeRemovedCb t k ob = Inr ob' \<Longrightarrow>
   keyed (keyframe_trackers ob' t)"
  by (auto simp: keyframeRemovedCb_def update_tracker_def keyed_def
      split: option.splits if_splits)

lemma fold_moved_cb_trackers:
  "keyframe_trackers (fold (\<lambda>h. if h_callback h = ControlSourceKeyFrameMovedCb
               then controlSourceKeyFrameMovedCb s old new else id) hs ob) = keyframe_trackers ob"
  by (induction hs arbitrary: ob) (auto simp: controlSourceKeyFrameMovedCb_def push_def)

lemma fold_moved_cb_log:
  "set (action_log (fold (\<lambda>h. if h_callback h = ControlSourceKeyFrameMovedCb
               then controlSourceKeyFrameMovedCb s old new else id) hs ob))
     \<subseteq> insert (AControlSourceKeyframeChanged (ControlSourceKeyframeChanged_init s old new))
         (set (action_log ob))"
proof (induction hs arbitrary: ob)
  case Nil
  then show ?case by auto
next
  case (Cons h hs)
  show ?case
  proof (cases "h_callback h = ControlSourceKeyFrameMovedCb")
    case True
    have "set (action_log (controlSourceKeyFrameMovedCb s old new ob))
            \<subseteq> insert (AControlSourceKeyframeChanged (ControlSourceKeyframeChanged_init s old new))
                (set (action_log ob))"
      by (auto simp: controlSourceKeyFrameMovedCb_def push_def)
    with Cons.IH [of "controlSourceKeyFrameMovedCb s old new ob"] True show ?thesis
      by auto
  next
    case False
    with Cons.IH [of ob] show ?thesis by simp
  qed
qed

lemma keyed_keyframeMovedCb:
  "keyed (keyframe_trackers ob t) \<Longrightarrow> keyframeMovedCb t s k ob = Inr ob' \<Longrightarrow>
   keyed (keyframe_trackers ob' t)"
  by (auto simp: keyframeMovedCb_def emit_keyframe_moved_def fold_moved_cb_trackers update_tracker_def
      keyed_def getKeyframeSnapshot_def Let_def split: option.splits if_splits)

lemma keyframeMovedCb_pushes_built:
  assumes "keyed (keyframe_trackers ob t)" and "keyframeMovedCb t s k ob = Inr ob'"
    and "a \<in> set (action_log ob')"
  shows "a \<in> set (action_log ob) \<or> built ign g a"
proof -
  from assms(2) obtain ks old where ks: "kct_keyframes (keyframe_trackers ob t) = Some ks"
      and old: "ks (fst k) = Some old"
      and ob': "ob' = emit_keyframe_moved t s old (getKeyframeSnapshot k)
                 (update_tracker t (\<lambda>tr. tr\<lparr>kct_keyframes := Some (ks(fst k \<mapsto> getKeyframeSnapshot k))\<rparr>) ob)"
    by (auto simp: keyframeMovedCb_def Let_def split: option.splits)
  have "fst old = fst k"
    using assms(1) ks old unfolding keyed_def by (cases old) fastforce
  moreover have "a = AControlSourceKeyframeChanged
        (ControlSourceKeyframeChanged_init s old (getKeyframeSnapshot k)) \<or> a \<in> set (action_log ob)"
  proof -
    let ?ob = "update_tracker t
        (\<lambda>tr. tr\<lparr>kct_keyframes := Some (ks(fst k \<mapsto> getKeyframeSnapshot k))\<rparr>) ob"
    have "set (action_log ob')
            \<subseteq> insert (AControlSourceKeyframeChanged
                        (ControlSourceKeyframeChanged_init s old (getKeyframeSnapshot k)))
                (set (action_log ?ob))"
      unfolding ob' emit_keyframe_moved_def by (rule fold_moved_cb_log)
    moreover have "action_log ?ob = action_log ob"
      by (simp add: update_tracker_def)
    ultimately show ?thesis
      using assms(3) by auto
  qed
  ultimately show ?thesis
    by (auto simp: ControlSourceKeyframeChanged_init_def getKeyframeSnapshot_def)
qed



end
